theory Spec2Isabelle
  imports Complex_Main "HOL-Library.Monad_Syntax" "HOL-Library.Word"
begin

section \<open>Constructor arguments and field validation\<close>

text \<open>
  The domain classes of \<^verbatim>\<open>domain/tableau_semantic.py\<close> and
  \<^verbatim>\<open>domain/lookml_project.py\<close> are pydantic models: a class is a list of typed
  fields, some with a default, and constructing an instance validates the keyword
  arguments against the declarations and raises \<^verbatim>\<open>ValidationError\<close> when one of
  them does not fit. No class declares a validator of its own, so the declarations are
  all that construction checks.

  A keyword argument is either left out (\<open>Absent\<close>), given as Python's \<^verbatim>\<open>None\<close>
  (\<open>Null\<close>), or given a value of the Python type the annotation names (\<open>Given\<close>):
  a \<^verbatim>\<open>str\<close> for \<^verbatim>\<open>str\<close> and for a \<^verbatim>\<open>Literal\<close> of strings, a
  \<^verbatim>\<open>bool\<close> for \<^verbatim>\<open>bool\<close>, a \<^verbatim>\<open>float\<close> for \<^verbatim>\<open>float\<close>, a list for
  \<^verbatim>\<open>List\<close>, and for a nested model either a dict of the nested class's fields or an
  instance of the nested class. Values of any other Python type, which pydantic may
  convert (an \<^verbatim>\<open>int\<close> given for a \<^verbatim>\<open>float\<close>, say), are outside this model.
\<close>

datatype 'a arg = Absent | Null | Given 'a

datatype error =
    ValidationError   \<comment> \<open>pydantic's error: some field does not fit its declaration\<close>
  | Raised string     \<comment> \<open>any other exception, by name\<close>

text \<open>\<^verbatim>\<open>x: T\<close> (no default): the argument must be given, and not as None.\<close>

definition required :: "'a arg \<Rightarrow> 'a option" where
  "required a = (case a of Given v \<Rightarrow> Some v | _ \<Rightarrow> None)"

text \<open>\<^verbatim>\<open>x: Optional[T] = None\<close>: left out or None, the field is None. It never fails.\<close>

definition optional :: "'a arg \<Rightarrow> 'a option option" where
  "optional a = (case a of Given v \<Rightarrow> Some (Some v) | _ \<Rightarrow> Some None)"

text \<open>\<^verbatim>\<open>x: T = d\<close>: left out, the field is the default; None is not a \<open>T\<close>.\<close>

definition defaulted :: "'a \<Rightarrow> 'a arg \<Rightarrow> 'a option" where
  "defaulted d a = (case a of Absent \<Rightarrow> Some d | Null \<Rightarrow> None | Given v \<Rightarrow> Some v)"

text \<open>
  \<^verbatim>\<open>x: Literal[...] = d\<close>: a given string must be one of the listed ones. The default
  is taken as it is.
\<close>

definition literal :: "string list \<Rightarrow> string \<Rightarrow> string arg \<Rightarrow> string option" where
  "literal allowed d a =
     (case a of
        Absent \<Rightarrow> Some d
      | Null \<Rightarrow> None
      | Given s \<Rightarrow> if s \<in> set allowed then Some s else None)"

text \<open>
  A nested model given as a dict is built by the nested class's constructor, whose
  error is the field's. One given as an instance is taken as it is: pydantic does not
  validate an instance again (\<^verbatim>\<open>revalidate_instances\<close> is \<^verbatim>\<open>never\<close> unless a class
  configures it, and none does), whatever its fields hold by then.
\<close>

datatype ('a, 'm) nested_arg = Dict 'a | Instance 'm

definition nested :: "('a \<Rightarrow> error + 'm) \<Rightarrow> ('a, 'm) nested_arg \<Rightarrow> 'm option" where
  "nested new x =
     (case x of
        Dict a \<Rightarrow> (case new a of Inr m \<Rightarrow> Some m | Inl _ \<Rightarrow> None)
      | Instance m \<Rightarrow> Some m)"

fun validate_each :: "('a \<Rightarrow> 'm option) \<Rightarrow> 'a list \<Rightarrow> 'm list option" where
  "validate_each v [] = Some []"
| "validate_each v (x # xs) =
     (case v x of
        None \<Rightarrow> None
      | Some y \<Rightarrow> (case validate_each v xs of None \<Rightarrow> None | Some ys \<Rightarrow> Some (y # ys)))"

text \<open>\<^verbatim>\<open>x: M\<close> for a model class \<open>M\<close>.\<close>

definition required_model ::
  "('a \<Rightarrow> error + 'm) \<Rightarrow> ('a, 'm) nested_arg arg \<Rightarrow> 'm option" where
  "required_model new a = (case a of Given v \<Rightarrow> nested new v | _ \<Rightarrow> None)"

text \<open>\<^verbatim>\<open>x: Optional[M] = None\<close>.\<close>

definition optional_model ::
  "('a \<Rightarrow> error + 'm) \<Rightarrow> ('a, 'm) nested_arg arg \<Rightarrow> 'm option option" where
  "optional_model new a =
     (case a of
        Given v \<Rightarrow> (case nested new v of None \<Rightarrow> None | Some m \<Rightarrow> Some (Some m))
      | _ \<Rightarrow> Some None)"

text \<open>\<^verbatim>\<open>x: List[M] = Field(default_factory=list)\<close>.\<close>

definition model_list ::
  "('a \<Rightarrow> error + 'm) \<Rightarrow> ('a, 'm) nested_arg list arg \<Rightarrow> 'm list option" where
  "model_list new a =
     (case a of
        Absent \<Rightarrow> Some []
      | Null \<Rightarrow> None
      | Given xs \<Rightarrow> validate_each (nested new) xs)"

text \<open>The constructor raises \<^verbatim>\<open>ValidationError\<close> when any field failed.\<close>

definition validated :: "'m option \<Rightarrow> error + 'm" where
  "validated r = (case r of None \<Rightarrow> Inl ValidationError | Some m \<Rightarrow> Inr m)"

section \<open>The Tableau semantic model (domain/tableau\_semantic.py)\<close>

text \<open>
  Each class is a record of its fields and a record of its keyword arguments. Several
  classes have fields of the same name (\<^verbatim>\<open>id\<close>, \<^verbatim>\<open>name\<close>, \<^verbatim>\<open>datatype\<close>), so a
  field \<^verbatim>\<open>x\<close> is written with its class in front: \<open>wb_x\<close> (TableauWorkbook),
  \<open>conn_x\<close> (TableauConnection), \<open>tbl_x\<close> (TableauTable), \<open>join_x\<close> (TableauJoin),
  \<open>fld_x\<close> (TableauField), \<open>calc_x\<close> (TableauCalculation), \<open>flt_x\<close>
  (TableauSheetFilter), \<open>viz_x\<close> (TableauSheetVisualization), \<open>sh_x\<close> (TableauSheet),
  \<open>ds_x\<close> (TableauDatasource); the keyword argument for it is \<open>arg_\<close> and that name.
\<close>

subsection \<open>Python's float\<close>

text \<open>
  A \<^verbatim>\<open>float\<close> is an IEEE 754 double: a sign, an 11-bit biased exponent and a 52-bit
  fraction. Exponent 2047 is an infinity (fraction 0) or a NaN; every other float is
  finite and has the value below (exponent 0 is a subnormal or a zero). \<^verbatim>\<open>0.0\<close> has
  all bits clear. Python's \<^verbatim>\<open>0 <= x <= 1\<close> is false of a NaN and of an infinity.
\<close>

datatype float64 = Float64 (f_sign: bool) (f_exponent: "11 word") (f_fraction: "52 word")

definition is_finite :: "float64 \<Rightarrow> bool" where
  "is_finite x \<longleftrightarrow> unat (f_exponent x) \<noteq> 2047"

definition float_value :: "float64 \<Rightarrow> real" where
  "float_value x =
     (if f_sign x then - 1 else 1) *
     (if unat (f_exponent x) = 0 then real (unat (f_fraction x)) * 2
      else (2 ^ 52 + real (unat (f_fraction x))) * 2 ^ unat (f_exponent x)) / 2 ^ 1075"

definition in_unit_interval :: "float64 \<Rightarrow> bool" where
  "in_unit_interval x \<longleftrightarrow> is_finite x \<and> 0 \<le> float_value x \<and> float_value x \<le> 1"

definition float_zero :: float64 where
  "float_zero = Float64 False 0 0"

definition float_two :: float64 where
  "float_two = Float64 False 1024 0"

definition float_minus_one :: float64 where
  "float_minus_one = Float64 True 1023 0"

subsection \<open>Workbook\<close>

record TableauWorkbook =
  wb_id :: string
  wb_name :: string
  wb_description :: "string option"

record TableauWorkbook_args =
  arg_wb_id :: "string arg"
  arg_wb_name :: "string arg"
  arg_wb_description :: "string arg"

definition TableauWorkbook_new :: "TableauWorkbook_args \<Rightarrow> error + TableauWorkbook" where
  "TableauWorkbook_new a = validated (do {
     i \<leftarrow> required (arg_wb_id a);
     n \<leftarrow> required (arg_wb_name a);
     d \<leftarrow> optional (arg_wb_description a);
     Some \<lparr>wb_id = i, wb_name = n, wb_description = d\<rparr> })"

subsection \<open>Connection, tables, joins\<close>

definition connection_type_values :: "string list" where
  "connection_type_values = [''table'', ''custom_sql'', ''extract'', ''unknown'']"

record TableauConnection =
  conn_type :: string
  conn_dialect :: "string option"
  conn_database :: "string option"
  conn_schema :: "string option"
  conn_table :: "string option"
  conn_raw_sql :: "string option"

record TableauConnection_args =
  arg_conn_type :: "string arg"
  arg_conn_dialect :: "string arg"
  arg_conn_database :: "string arg"
  arg_conn_schema :: "string arg"
  arg_conn_table :: "string arg"
  arg_conn_raw_sql :: "string arg"

definition TableauConnection_new :: "TableauConnection_args \<Rightarrow> error + TableauConnection" where
  "TableauConnection_new a = validated (do {
     t \<leftarrow> literal connection_type_values ''unknown'' (arg_conn_type a);
     di \<leftarrow> optional (arg_conn_dialect a);
     db \<leftarrow> optional (arg_conn_database a);
     sc \<leftarrow> optional (arg_conn_schema a);
     tb \<leftarrow> optional (arg_conn_table a);
     rs \<leftarrow> optional (arg_conn_raw_sql a);
     Some \<lparr>conn_type = t, conn_dialect = di, conn_database = db, conn_schema = sc,
           conn_table = tb, conn_raw_sql = rs\<rparr> })"

record TableauTable =
  tbl_id :: string
  tbl_name :: string
  tbl_database :: "string option"
  tbl_schema :: "string option"
  tbl_table :: "string option"
  tbl_is_primary :: bool

record TableauTable_args =
  arg_tbl_id :: "string arg"
  arg_tbl_name :: "string arg"
  arg_tbl_database :: "string arg"
  arg_tbl_schema :: "string arg"
  arg_tbl_table :: "string arg"
  arg_tbl_is_primary :: "bool arg"

definition TableauTable_new :: "TableauTable_args \<Rightarrow> error + TableauTable" where
  "TableauTable_new a = validated (do {
     i \<leftarrow> required (arg_tbl_id a);
     n \<leftarrow> required (arg_tbl_name a);
     db \<leftarrow> optional (arg_tbl_database a);
     sc \<leftarrow> optional (arg_tbl_schema a);
     tb \<leftarrow> optional (arg_tbl_table a);
     p \<leftarrow> defaulted False (arg_tbl_is_primary a);
     Some \<lparr>tbl_id = i, tbl_name = n, tbl_database = db, tbl_schema = sc, tbl_table = tb,
           tbl_is_primary = p\<rparr> })"

definition join_type_values :: "string list" where
  "join_type_values = [''inner'', ''left'', ''right'', ''full'', ''unknown'']"

record TableauJoin =
  join_id :: string
  join_left_table_id :: string
  join_right_table_id :: string
  join_type :: string
  join_condition :: string
  join_needs_manual_review :: bool

record TableauJoin_args =
  arg_join_id :: "string arg"
  arg_join_left_table_id :: "string arg"
  arg_join_right_table_id :: "string arg"
  arg_join_type :: "string arg"
  arg_join_condition :: "string arg"
  arg_join_needs_manual_review :: "bool arg"

definition TableauJoin_new :: "TableauJoin_args \<Rightarrow> error + TableauJoin" where
  "TableauJoin_new a = validated (do {
     i \<leftarrow> required (arg_join_id a);
     l \<leftarrow> required (arg_join_left_table_id a);
     r \<leftarrow> required (arg_join_right_table_id a);
     t \<leftarrow> literal join_type_values ''unknown'' (arg_join_type a);
     c \<leftarrow> required (arg_join_condition a);
     m \<leftarrow> defaulted False (arg_join_needs_manual_review a);
     Some \<lparr>join_id = i, join_left_table_id = l, join_right_table_id = r, join_type = t,
           join_condition = c, join_needs_manual_review = m\<rparr> })"

subsection \<open>Fields and calculations\<close>

definition role_values :: "string list" where
  "role_values = [''dimension'', ''measure'', ''unknown'']"

definition datatype_values :: "string list" where
  "datatype_values = [''string'', ''number'', ''date'', ''datetime'', ''boolean'', ''unknown'']"

definition source_values :: "string list" where
  "source_values = [''column'', ''calculation'', ''parameter'', ''unknown'']"

record TableauField =
  fld_id :: string
  fld_name :: string
  fld_caption :: "string option"
  fld_table_id :: "string option"
  fld_role :: string
  fld_datatype :: string
  fld_aggregation :: "string option"
  fld_source :: string
  fld_column_name :: "string option"
  fld_calculation_id :: "string option"
  fld_is_hidden :: bool
  fld_tags :: "string list"

record TableauField_args =
  arg_fld_id :: "string arg"
  arg_fld_name :: "string arg"
  arg_fld_caption :: "string arg"
  arg_fld_table_id :: "string arg"
  arg_fld_role :: "string arg"
  arg_fld_datatype :: "string arg"
  arg_fld_aggregation :: "string arg"
  arg_fld_source :: "string arg"
  arg_fld_column_name :: "string arg"
  arg_fld_calculation_id :: "string arg"
  arg_fld_is_hidden :: "bool arg"
  arg_fld_tags :: "string list arg"

definition TableauField_new :: "TableauField_args \<Rightarrow> error + TableauField" where
  "TableauField_new a = validated (do {
     i \<leftarrow> required (arg_fld_id a);
     n \<leftarrow> required (arg_fld_name a);
     cp \<leftarrow> optional (arg_fld_caption a);
     ti \<leftarrow> optional (arg_fld_table_id a);
     ro \<leftarrow> literal role_values ''unknown'' (arg_fld_role a);
     dt \<leftarrow> literal datatype_values ''unknown'' (arg_fld_datatype a);
     ag \<leftarrow> optional (arg_fld_aggregation a);
     so \<leftarrow> literal source_values ''unknown'' (arg_fld_source a);
     cn \<leftarrow> optional (arg_fld_column_name a);
     ci \<leftarrow> optional (arg_fld_calculation_id a);
     hi \<leftarrow> defaulted False (arg_fld_is_hidden a);
     tg \<leftarrow> defaulted [] (arg_fld_tags a);
     Some \<lparr>fld_id = i, fld_name = n, fld_caption = cp, fld_table_id = ti, fld_role = ro,
           fld_datatype = dt, fld_aggregation = ag, fld_source = so, fld_column_name = cn,
           fld_calculation_id = ci, fld_is_hidden = hi, fld_tags = tg\<rparr> })"

definition category_values :: "string list" where
  "category_values = [''simple'', ''lod'', ''table_calc'', ''parameter_based'', ''unknown'']"

record TableauCalculation =
  calc_id :: string
  calc_name :: string
  calc_datasource_id :: string
  calc_expression :: string
  calc_datatype :: string
  calc_category :: string
  calc_complexity_score :: float64

record TableauCalculation_args =
  arg_calc_id :: "string arg"
  arg_calc_name :: "string arg"
  arg_calc_datasource_id :: "string arg"
  arg_calc_expression :: "string arg"
  arg_calc_datatype :: "string arg"
  arg_calc_category :: "string arg"
  arg_calc_complexity_score :: "float64 arg"

definition TableauCalculation_new :: "TableauCalculation_args \<Rightarrow> error + TableauCalculation" where
  "TableauCalculation_new a = validated (do {
     i \<leftarrow> required (arg_calc_id a);
     n \<leftarrow> required (arg_calc_name a);
     ds \<leftarrow> required (arg_calc_datasource_id a);
     ex \<leftarrow> required (arg_calc_expression a);
     dt \<leftarrow> literal datatype_values ''unknown'' (arg_calc_datatype a);
     ca \<leftarrow> literal category_values ''unknown'' (arg_calc_category a);
     cs \<leftarrow> defaulted float_zero (arg_calc_complexity_score a);
     Some \<lparr>calc_id = i, calc_name = n, calc_datasource_id = ds, calc_expression = ex,
           calc_datatype = dt, calc_category = ca, calc_complexity_score = cs\<rparr> })"

subsection \<open>Sheets, filters and visualizations\<close>

definition applied_to_values :: "string list" where
  "applied_to_values = [''rows'', ''columns'', ''table'', ''unknown'']"

record TableauSheetFilter =
  flt_field_id :: string
  flt_expression :: string
  flt_applied_to :: string

record TableauSheetFilter_args =
  arg_flt_field_id :: "string arg"
  arg_flt_expression :: "string arg"
  arg_flt_applied_to :: "string arg"

definition TableauSheetFilter_new :: "TableauSheetFilter_args \<Rightarrow> error + TableauSheetFilter" where
  "TableauSheetFilter_new a = validated (do {
     f \<leftarrow> required (arg_flt_field_id a);
     e \<leftarrow> required (arg_flt_expression a);
     t \<leftarrow> literal applied_to_values ''unknown'' (arg_flt_applied_to a);
     Some \<lparr>flt_field_id = f, flt_expression = e, flt_applied_to = t\<rparr> })"

definition chart_type_values :: "string list" where
  "chart_type_values =
     [''table'', ''bar'', ''line'', ''area'', ''scatter'', ''pie'', ''single_value'', ''unknown'']"

record TableauSheetVisualization =
  viz_chart_type :: string
  viz_primary_dimension_id :: "string option"
  viz_primary_measure_ids :: "string list"
  viz_split_by_dimension_ids :: "string list"
  viz_sort_order :: "string option"
  viz_granularity :: "string option"

record TableauSheetVisualization_args =
  arg_viz_chart_type :: "string arg"
  arg_viz_primary_dimension_id :: "string arg"
  arg_viz_primary_measure_ids :: "string list arg"
  arg_viz_split_by_dimension_ids :: "string list arg"
  arg_viz_sort_order :: "string arg"
  arg_viz_granularity :: "string arg"

definition TableauSheetVisualization_new ::
  "TableauSheetVisualization_args \<Rightarrow> error + TableauSheetVisualization" where
  "TableauSheetVisualization_new a = validated (do {
     ct \<leftarrow> literal chart_type_values ''unknown'' (arg_viz_chart_type a);
     pd \<leftarrow> optional (arg_viz_primary_dimension_id a);
     pm \<leftarrow> defaulted [] (arg_viz_primary_measure_ids a);
     sb \<leftarrow> defaulted [] (arg_viz_split_by_dimension_ids a);
     so \<leftarrow> optional (arg_viz_sort_order a);
     gr \<leftarrow> optional (arg_viz_granularity a);
     Some \<lparr>viz_chart_type = ct, viz_primary_dimension_id = pd, viz_primary_measure_ids = pm,
           viz_split_by_dimension_ids = sb, viz_sort_order = so, viz_granularity = gr\<rparr> })"

record TableauSheet =
  sh_id :: string
  sh_name :: string
  sh_datasource_id :: string
  sh_used_field_ids :: "string list"
  sh_filters :: "TableauSheetFilter list"
  sh_visualization :: "TableauSheetVisualization option"
  sh_description :: "string option"

record TableauSheet_args =
  arg_sh_id :: "string arg"
  arg_sh_name :: "string arg"
  arg_sh_datasource_id :: "string arg"
  arg_sh_used_field_ids :: "string list arg"
  arg_sh_filters :: "(TableauSheetFilter_args, TableauSheetFilter) nested_arg list arg"
  arg_sh_visualization ::
    "(TableauSheetVisualization_args, TableauSheetVisualization) nested_arg arg"
  arg_sh_description :: "string arg"

definition TableauSheet_new :: "TableauSheet_args \<Rightarrow> error + TableauSheet" where
  "TableauSheet_new a = validated (do {
     i \<leftarrow> required (arg_sh_id a);
     n \<leftarrow> required (arg_sh_name a);
     ds \<leftarrow> required (arg_sh_datasource_id a);
     us \<leftarrow> defaulted [] (arg_sh_used_field_ids a);
     fs \<leftarrow> model_list TableauSheetFilter_new (arg_sh_filters a);
     vz \<leftarrow> optional_model TableauSheetVisualization_new (arg_sh_visualization a);
     de \<leftarrow> optional (arg_sh_description a);
     Some \<lparr>sh_id = i, sh_name = n, sh_datasource_id = ds, sh_used_field_ids = us,
           sh_filters = fs, sh_visualization = vz, sh_description = de\<rparr> })"

subsection \<open>Datasource\<close>

record TableauDatasource =
  ds_id :: string
  ds_name :: string
  ds_connection :: TableauConnection
  ds_tables :: "TableauTable list"
  ds_joins :: "TableauJoin list"
  ds_fields :: "TableauField list"

record TableauDatasource_args =
  arg_ds_id :: "string arg"
  arg_ds_name :: "string arg"
  arg_ds_connection :: "(TableauConnection_args, TableauConnection) nested_arg arg"
  arg_ds_tables :: "(TableauTable_args, TableauTable) nested_arg list arg"
  arg_ds_joins :: "(TableauJoin_args, TableauJoin) nested_arg list arg"
  arg_ds_fields :: "(TableauField_args, TableauField) nested_arg list arg"

definition TableauDatasource_new :: "TableauDatasource_args \<Rightarrow> error + TableauDatasource" where
  "TableauDatasource_new a = validated (do {
     i \<leftarrow> required (arg_ds_id a);
     n \<leftarrow> required (arg_ds_name a);
     c \<leftarrow> required_model TableauConnection_new (arg_ds_connection a);
     ts \<leftarrow> model_list TableauTable_new (arg_ds_tables a);
     js \<leftarrow> model_list TableauJoin_new (arg_ds_joins a);
     fs \<leftarrow> model_list TableauField_new (arg_ds_fields a);
     Some \<lparr>ds_id = i, ds_name = n, ds_connection = c, ds_tables = ts, ds_joins = js,
           ds_fields = fs\<rparr> })"

subsection \<open>The top-level model\<close>

text \<open>
  \<^verbatim>\<open>workbook: TableauWorkbook\<close> has no default and is not \<^verbatim>\<open>Optional\<close>. The
  attribute of an object at run time can still be None (pydantic does not check an
  assignment, nor an object built without validation), and the parser service tests
  for it, so the record has an optional workbook; the constructor returns it present.
\<close>

record TableauSemanticModel =
  schema_version :: string
  workbook :: "TableauWorkbook option"
  datasources :: "TableauDatasource list"
  calculations :: "TableauCalculation list"
  sheets :: "TableauSheet list"

record TableauSemanticModel_args =
  arg_schema_version :: "string arg"
  arg_workbook :: "(TableauWorkbook_args, TableauWorkbook) nested_arg arg"
  arg_datasources :: "(TableauDatasource_args, TableauDatasource) nested_arg list arg"
  arg_calculations :: "(TableauCalculation_args, TableauCalculation) nested_arg list arg"
  arg_sheets :: "(TableauSheet_args, TableauSheet) nested_arg list arg"

definition TableauSemanticModel_new ::
  "TableauSemanticModel_args \<Rightarrow> error + TableauSemanticModel" where
  "TableauSemanticModel_new a = validated (do {
     sv \<leftarrow> defaulted ''1.0'' (arg_schema_version a);
     wb \<leftarrow> required_model TableauWorkbook_new (arg_workbook a);
     ds \<leftarrow> model_list TableauDatasource_new (arg_datasources a);
     cs \<leftarrow> model_list TableauCalculation_new (arg_calculations a);
     ss \<leftarrow> model_list TableauSheet_new (arg_sheets a);
     Some \<lparr>schema_version = sv, workbook = Some wb, datasources = ds, calculations = cs,
           sheets = ss\<rparr> })"

section \<open>The LookML project (domain/lookml\_project.py)\<close>

record LookMLFile =
  filename :: string
  content :: string

record LookMLProject =
  model_files :: "LookMLFile list"
  view_files :: "LookMLFile list"
  dashboard_files :: "LookMLFile list"

definition all_files :: "LookMLProject \<Rightarrow> LookMLFile list" where
  "all_files self = model_files self @ view_files self @ dashboard_files self"

section \<open>The parser service (services/parser\_service.py)\<close>

text \<open>
  \<^verbatim>\<open>parse_twb_to_semantic_model\<close> calls two functions of the module
  \<^verbatim>\<open>adapters.twb_xml_parser\<close>, which is not among the sources: they are parameters
  here. A call of either may raise, and may read and change whatever the process holds
  besides its argument (module globals, caches); \<open>'s\<close> is that ambient state, passed
  through the calls in order. The raw spec (\<^verbatim>\<open>Dict[str, Any]\<close>) is a type parameter.
  The assignment to \<^verbatim>\<open>semantic_model.workbook\<close> updates the object the adapter
  returned, which is the object the service returns.
\<close>

type_synonym bytes = "char list"

type_synonym ('s, 'a) call = "'s \<Rightarrow> (error + 'a) \<times> 's"

definition parse_twb_to_semantic_model ::
  "(bytes \<Rightarrow> ('s, 'raw) call) \<Rightarrow> ('raw \<Rightarrow> ('s, TableauSemanticModel) call) \<Rightarrow>
   bytes \<Rightarrow> ('s, TableauSemanticModel) call" where
  "parse_twb_to_semantic_model parse_twb_xml_to_raw_spec raw_spec_to_semantic_model twb_bytes s =
     (case parse_twb_xml_to_raw_spec twb_bytes s of
        (Inl e, s1) \<Rightarrow> (Inl e, s1)
      | (Inr raw_spec, s1) \<Rightarrow>
          (case raw_spec_to_semantic_model raw_spec s1 of
             (Inl e, s2) \<Rightarrow> (Inl e, s2)
           | (Inr semantic_model, s2) \<Rightarrow>
               if workbook semantic_model = None then
                 (case TableauWorkbook_new
                         \<lparr>arg_wb_id = Given ''unknown'',
                          arg_wb_name = Given ''Unknown Workbook'',
                          arg_wb_description = Null\<rparr> of
                    Inl e \<Rightarrow> (Inl e, s2)
                  | Inr wb \<Rightarrow> (Inr (semantic_model\<lparr>workbook := Some wb\<rparr>), s2))
               else (Inr semantic_model, s2)))"

section \<open>Calls with no keyword argument\<close>

text \<open>
  \<^verbatim>\<open>C()\<close> for each class \<^verbatim>\<open>C\<close>: a call \<^verbatim>\<open>C(x=v, ...)\<close> is the update of it at
  the arguments given.
\<close>

definition TableauWorkbook_args0 :: TableauWorkbook_args where
  "TableauWorkbook_args0 =
     \<lparr>arg_wb_id = Absent, arg_wb_name = Absent, arg_wb_description = Absent\<rparr>"

definition TableauConnection_args0 :: TableauConnection_args where
  "TableauConnection_args0 =
     \<lparr>arg_conn_type = Absent, arg_conn_dialect = Absent, arg_conn_database = Absent,
      arg_conn_schema = Absent, arg_conn_table = Absent, arg_conn_raw_sql = Absent\<rparr>"

definition TableauTable_args0 :: TableauTable_args where
  "TableauTable_args0 =
     \<lparr>arg_tbl_id = Absent, arg_tbl_name = Absent, arg_tbl_database = Absent,
      arg_tbl_schema = Absent, arg_tbl_table = Absent, arg_tbl_is_primary = Absent\<rparr>"

definition TableauJoin_args0 :: TableauJoin_args where
  "TableauJoin_args0 =
     \<lparr>arg_join_id = Absent, arg_join_left_table_id = Absent, arg_join_right_table_id = Absent,
      arg_join_type = Absent, arg_join_condition = Absent,
      arg_join_needs_manual_review = Absent\<rparr>"

definition TableauField_args0 :: TableauField_args where
  "TableauField_args0 =
     \<lparr>arg_fld_id = Absent, arg_fld_name = Absent, arg_fld_caption = Absent,
      arg_fld_table_id = Absent, arg_fld_role = Absent, arg_fld_datatype = Absent,
      arg_fld_aggregation = Absent, arg_fld_source = Absent, arg_fld_column_name = Absent,
      arg_fld_calculation_id = Absent, arg_fld_is_hidden = Absent, arg_fld_tags = Absent\<rparr>"

definition TableauCalculation_args0 :: TableauCalculation_args where
  "TableauCalculation_args0 =
     \<lparr>arg_calc_id = Absent, arg_calc_name = Absent, arg_calc_datasource_id = Absent,
      arg_calc_expression = Absent, arg_calc_datatype = Absent, arg_calc_category = Absent,
      arg_calc_complexity_score = Absent\<rparr>"

definition TableauSheetFilter_args0 :: TableauSheetFilter_args where
  "TableauSheetFilter_args0 =
     \<lparr>arg_flt_field_id = Absent, arg_flt_expression = Absent, arg_flt_applied_to = Absent\<rparr>"

definition TableauSheetVisualization_args0 :: TableauSheetVisualization_args where
  "TableauSheetVisualization_args0 =
     \<lparr>arg_viz_chart_type = Absent, arg_viz_primary_dimension_id = Absent,
      arg_viz_primary_measure_ids = Absent, arg_viz_split_by_dimension_ids = Absent,
      arg_viz_sort_order = Absent, arg_viz_granularity = Absent\<rparr>"

definition TableauSheet_args0 :: TableauSheet_args where
  "TableauSheet_args0 =
     \<lparr>arg_sh_id = Absent, arg_sh_name = Absent, arg_sh_datasource_id = Absent,
      arg_sh_used_field_ids = Absent, arg_sh_filters = Absent, arg_sh_visualization = Absent,
      arg_sh_description = Absent\<rparr>"

definition TableauDatasource_args0 :: TableauDatasource_args where
  "TableauDatasource_args0 =
     \<lparr>arg_ds_id = Absent, arg_ds_name = Absent, arg_ds_connection = Absent,
      arg_ds_tables = Absent, arg_ds_joins = Absent, arg_ds_fields = Absent\<rparr>"

definition TableauSemanticModel_args0 :: TableauSemanticModel_args where
  "TableauSemanticModel_args0 =
     \<lparr>arg_schema_version = Absent, arg_workbook = Absent, arg_datasources = Absent,
      arg_calculations = Absent, arg_sheets = Absent\<rparr>"

section \<open>The arguments of a call, as an object\<close>

text \<open>
  The object that holds the arguments of a call just as they are given: a field left
  out holds its default, a nested model given as a dict is read the same way, and one
  given as an instance is that instance. Nothing is checked and no id is looked up.
  (A field without a default that is not given reads as the empty string, or the
  connection of no arguments: the constructor refuses such a call.)
\<close>

definition given_or :: "'a \<Rightarrow> 'a arg \<Rightarrow> 'a" where
  "given_or d a = (case a of Given v \<Rightarrow> v | _ \<Rightarrow> d)"

definition given_option :: "'a arg \<Rightarrow> 'a option" where
  "given_option a = (case a of Given v \<Rightarrow> Some v | _ \<Rightarrow> None)"

fun instance_of :: "('a \<Rightarrow> 'm) \<Rightarrow> ('a, 'm) nested_arg \<Rightarrow> 'm" where
  "instance_of as_given (Dict a) = as_given a"
| "instance_of as_given (Instance m) = m"

definition TableauWorkbook_as_given :: "TableauWorkbook_args \<Rightarrow> TableauWorkbook" where
  "TableauWorkbook_as_given a =
     \<lparr>wb_id = given_or [] (arg_wb_id a), wb_name = given_or [] (arg_wb_name a),
      wb_description = given_option (arg_wb_description a)\<rparr>"

definition TableauConnection_as_given :: "TableauConnection_args \<Rightarrow> TableauConnection" where
  "TableauConnection_as_given a =
     \<lparr>conn_type = given_or ''unknown'' (arg_conn_type a),
      conn_dialect = given_option (arg_conn_dialect a),
      conn_database = given_option (arg_conn_database a),
      conn_schema = given_option (arg_conn_schema a),
      conn_table = given_option (arg_conn_table a),
      conn_raw_sql = given_option (arg_conn_raw_sql a)\<rparr>"

definition TableauTable_as_given :: "TableauTable_args \<Rightarrow> TableauTable" where
  "TableauTable_as_given a =
     \<lparr>tbl_id = given_or [] (arg_tbl_id a), tbl_name = given_or [] (arg_tbl_name a),
      tbl_database = given_option (arg_tbl_database a),
      tbl_schema = given_option (arg_tbl_schema a),
      tbl_table = given_option (arg_tbl_table a),
      tbl_is_primary = given_or False (arg_tbl_is_primary a)\<rparr>"

definition TableauJoin_as_given :: "TableauJoin_args \<Rightarrow> TableauJoin" where
  "TableauJoin_as_given a =
     \<lparr>join_id = given_or [] (arg_join_id a),
      join_left_table_id = given_or [] (arg_join_left_table_id a),
      join_right_table_id = given_or [] (arg_join_right_table_id a),
      join_type = given_or ''unknown'' (arg_join_type a),
      join_condition = given_or [] (arg_join_condition a),
      join_needs_manual_review = given_or False (arg_join_needs_manual_review a)\<rparr>"

definition TableauField_as_given :: "TableauField_args \<Rightarrow> TableauField" where
  "TableauField_as_given a =
     \<lparr>fld_id = given_or [] (arg_fld_id a), fld_name = given_or [] (arg_fld_name a),
      fld_caption = given_option (arg_fld_caption a),
      fld_table_id = given_option (arg_fld_table_id a),
      fld_role = given_or ''unknown'' (arg_fld_role a),
      fld_datatype = given_or ''unknown'' (arg_fld_datatype a),
      fld_aggregation = given_option (arg_fld_aggregation a),
      fld_source = given_or ''unknown'' (arg_fld_source a),
      fld_column_name = given_option (arg_fld_column_name a),
      fld_calculation_id = given_option (arg_fld_calculation_id a),
      fld_is_hidden = given_or False (arg_fld_is_hidden a),
      fld_tags = given_or [] (arg_fld_tags a)\<rparr>"

definition TableauCalculation_as_given :: "TableauCalculation_args \<Rightarrow> TableauCalculation" where
  "TableauCalculation_as_given a =
     \<lparr>calc_id = given_or [] (arg_calc_id a), calc_name = given_or [] (arg_calc_name a),
      calc_datasource_id = given_or [] (arg_calc_datasource_id a),
      calc_expression = given_or [] (arg_calc_expression a),
      calc_datatype = given_or ''unknown'' (arg_calc_datatype a),
      calc_category = given_or ''unknown'' (arg_calc_category a),
      calc_complexity_score = given_or float_zero (arg_calc_complexity_score a)\<rparr>"

definition TableauSheetFilter_as_given :: "TableauSheetFilter_args \<Rightarrow> TableauSheetFilter" where
  "TableauSheetFilter_as_given a =
     \<lparr>flt_field_id = given_or [] (arg_flt_field_id a),
      flt_expression = given_or [] (arg_flt_expression a),
      flt_applied_to = given_or ''unknown'' (arg_flt_applied_to a)\<rparr>"

definition TableauSheetVisualization_as_given ::
  "TableauSheetVisualization_args \<Rightarrow> TableauSheetVisualization" where
  "TableauSheetVisualization_as_given a =
     \<lparr>viz_chart_type = given_or ''unknown'' (arg_viz_chart_type a),
      viz_primary_dimension_id = given_option (arg_viz_primary_dimension_id a),
      viz_primary_measure_ids = given_or [] (arg_viz_primary_measure_ids a),
      viz_split_by_dimension_ids = given_or [] (arg_viz_split_by_dimension_ids a),
      viz_sort_order = given_option (arg_viz_sort_order a),
      viz_granularity = given_option (arg_viz_granularity a)\<rparr>"

definition TableauSheet_as_given :: "TableauSheet_args \<Rightarrow> TableauSheet" where
  "TableauSheet_as_given a =
     \<lparr>sh_id = given_or [] (arg_sh_id a), sh_name = given_or [] (arg_sh_name a),
      sh_datasource_id = given_or [] (arg_sh_datasource_id a),
      sh_used_field_ids = given_or [] (arg_sh_used_field_ids a),
      sh_filters =
        map (instance_of TableauSheetFilter_as_given) (given_or [] (arg_sh_filters a)),
      sh_visualization =
        map_option (instance_of TableauSheetVisualization_as_given)
          (given_option (arg_sh_visualization a)),
      sh_description = given_option (arg_sh_description a)\<rparr>"

definition TableauDatasource_as_given :: "TableauDatasource_args \<Rightarrow> TableauDatasource" where
  "TableauDatasource_as_given a =
     \<lparr>ds_id = given_or [] (arg_ds_id a), ds_name = given_or [] (arg_ds_name a),
      ds_connection =
        instance_of TableauConnection_as_given
          (given_or (Dict TableauConnection_args0) (arg_ds_connection a)),
      ds_tables = map (instance_of TableauTable_as_given) (given_or [] (arg_ds_tables a)),
      ds_joins = map (instance_of TableauJoin_as_given) (given_or [] (arg_ds_joins a)),
      ds_fields = map (instance_of TableauField_as_given) (given_or [] (arg_ds_fields a))\<rparr>"

definition TableauSemanticModel_as_given ::
  "TableauSemanticModel_args \<Rightarrow> TableauSemanticModel" where
  "TableauSemanticModel_as_given a =
     \<lparr>schema_version = given_or ''1.0'' (arg_schema_version a),
      workbook =
        map_option (instance_of TableauWorkbook_as_given) (given_option (arg_workbook a)),
      datasources =
        map (instance_of TableauDatasource_as_given) (given_or [] (arg_datasources a)),
      calculations =
        map (instance_of TableauCalculation_as_given) (given_or [] (arg_calculations a)),
      sheets = map (instance_of TableauSheet_as_given) (given_or [] (arg_sheets a))\<rparr>"

section \<open>The properties the specification states of the model\<close>

subsection \<open>References that resolve\<close>

text \<open>
  The referential invariant of the data model, in its three parts. A field whose source
  is a calculation names a calculation of the model (of any datasource: the weakest
  reading); a join names two tables of its datasource; a sheet's filters and its
  visualization name fields of the datasources that carry the sheet's
  \<^verbatim>\<open>datasource_id\<close>.
\<close>

definition field_calculations_resolve :: "TableauSemanticModel \<Rightarrow> bool" where
  "field_calculations_resolve m =
     list_all (\<lambda>d. list_all (\<lambda>f.
         fld_source f \<noteq> ''calculation'' \<or>
         (case fld_calculation_id f of
            None \<Rightarrow> False
          | Some c \<Rightarrow> c \<in> set (map calc_id (calculations m))))
       (ds_fields d)) (datasources m)"

definition join_tables_resolve :: "TableauSemanticModel \<Rightarrow> bool" where
  "join_tables_resolve m =
     list_all (\<lambda>d. list_all (\<lambda>j.
         join_left_table_id j \<in> set (map tbl_id (ds_tables d)) \<and>
         join_right_table_id j \<in> set (map tbl_id (ds_tables d)))
       (ds_joins d)) (datasources m)"

definition datasource_field_ids :: "TableauSemanticModel \<Rightarrow> string \<Rightarrow> string list" where
  "datasource_field_ids m i =
     concat (map (\<lambda>d. map fld_id (ds_fields d)) (filter (\<lambda>d. ds_id d = i) (datasources m)))"

definition sheet_fields_resolve :: "TableauSemanticModel \<Rightarrow> bool" where
  "sheet_fields_resolve m =
     list_all (\<lambda>s.
         list_all (\<lambda>x. flt_field_id x \<in> set (datasource_field_ids m (sh_datasource_id s)))
           (sh_filters s) \<and>
         (case sh_visualization s of
            None \<Rightarrow> True
          | Some v \<Rightarrow>
              list_all (\<lambda>i. i \<in> set (datasource_field_ids m (sh_datasource_id s)))
                ((case viz_primary_dimension_id v of None \<Rightarrow> [] | Some p \<Rightarrow> [p]) @
                 viz_primary_measure_ids v @ viz_split_by_dimension_ids v)))
       (sheets m)"

definition references_resolve :: "TableauSemanticModel \<Rightarrow> bool" where
  "references_resolve m \<longleftrightarrow>
     field_calculations_resolve m \<and> join_tables_resolve m \<and> sheet_fields_resolve m"

subsection \<open>The adapters, as the specification describes them\<close>

definition state_independent :: "('x \<Rightarrow> ('s, 'a) call) \<Rightarrow> bool" where
  \<comment> \<open>Modelled from the spec: the functions of \<^verbatim>\<open>adapters.twb_xml_parser\<close> are not among
      the sources. The specification has the reader a pure transform with no side effect
      (4.1) and the pipeline without shared mutable state across runs (5): what a call
      returns or raises is decided by its argument alone.\<close>
  "state_independent f \<longleftrightarrow> (\<forall>x s s'. fst (f x s) = fst (f x s'))"


section \<open>Example calls\<close>

text \<open>
  A workbook with one datasource and one sheet, every id of which names nothing: the
  field's calculation \<^verbatim>\<open>c9\<close>, the join's tables \<^verbatim>\<open>t1\<close> and \<^verbatim>\<open>t2\<close>, the filter's field
  \<^verbatim>\<open>f7\<close>.
\<close>

definition dangling_args :: TableauSemanticModel_args where
  "dangling_args = TableauSemanticModel_args0
     \<lparr>arg_workbook := Given (Dict (TableauWorkbook_args0
        \<lparr>arg_wb_id := Given ''wb1'', arg_wb_name := Given ''Sales''\<rparr>)),
      arg_datasources := Given [Dict (TableauDatasource_args0
        \<lparr>arg_ds_id := Given ''ds1'', arg_ds_name := Given ''Orders'',
         arg_ds_connection := Given (Dict TableauConnection_args0),
         arg_ds_joins := Given [Dict (TableauJoin_args0
           \<lparr>arg_join_id := Given ''j1'', arg_join_left_table_id := Given ''t1'',
            arg_join_right_table_id := Given ''t2'',
            arg_join_condition := Given ''[a] = [b]''\<rparr>)],
         arg_ds_fields := Given [Dict (TableauField_args0
           \<lparr>arg_fld_id := Given ''f1'', arg_fld_name := Given ''Profit'',
            arg_fld_source := Given ''calculation'',
            arg_fld_calculation_id := Given ''c9''\<rparr>)]\<rparr>)],
      arg_sheets := Given [Dict (TableauSheet_args0
        \<lparr>arg_sh_id := Given ''s1'', arg_sh_name := Given ''Sheet 1'',
         arg_sh_datasource_id := Given ''ds1'',
         arg_sh_filters := Given [Dict (TableauSheetFilter_args0
           \<lparr>arg_flt_field_id := Given ''f7'',
            arg_flt_expression := Given ''[x] > 1''\<rparr>)]\<rparr>)]\<rparr>"

text \<open>
  The same workbook with every id in place: tables \<^verbatim>\<open>orders\<close> and \<^verbatim>\<open>line_items\<close>
  joined on one equality between their columns \<^verbatim>\<open>id\<close> and \<^verbatim>\<open>order_id\<close> (each a
  field of the datasource), a field of a calculation that exists, a filter on that field
  and a bar chart of it by one of the columns.
  \<open>flag\<close> is the \<^verbatim>\<open>needs_manual_review\<close> argument of the join.
\<close>

definition orders_join_args :: "bool arg \<Rightarrow> TableauJoin_args" where
  "orders_join_args flag = TableauJoin_args0
     \<lparr>arg_join_id := Given ''j1'', arg_join_left_table_id := Given ''orders'',
      arg_join_right_table_id := Given ''line_items'',
      arg_join_condition := Given ''[orders.id] = [line_items.order_id]'',
      arg_join_needs_manual_review := flag\<rparr>"

definition orders_datasource_args :: "bool arg \<Rightarrow> TableauDatasource_args" where
  "orders_datasource_args flag = TableauDatasource_args0
     \<lparr>arg_ds_id := Given ''ds1'', arg_ds_name := Given ''Orders'',
      arg_ds_connection := Given (Dict TableauConnection_args0),
      arg_ds_tables := Given
        [Dict (TableauTable_args0
           \<lparr>arg_tbl_id := Given ''orders'', arg_tbl_name := Given ''orders''\<rparr>),
         Dict (TableauTable_args0
           \<lparr>arg_tbl_id := Given ''line_items'', arg_tbl_name := Given ''line_items''\<rparr>)],
      arg_ds_joins := Given [Dict (orders_join_args flag)],
      arg_ds_fields := Given
        [Dict (TableauField_args0
           \<lparr>arg_fld_id := Given ''f1'', arg_fld_name := Given ''Profit'',
            arg_fld_source := Given ''calculation'',
            arg_fld_calculation_id := Given ''c1''\<rparr>),
         Dict (TableauField_args0
           \<lparr>arg_fld_id := Given ''f2'', arg_fld_name := Given ''id'',
            arg_fld_table_id := Given ''orders'', arg_fld_source := Given ''column'',
            arg_fld_column_name := Given ''id''\<rparr>),
         Dict (TableauField_args0
           \<lparr>arg_fld_id := Given ''f3'', arg_fld_name := Given ''order_id'',
            arg_fld_table_id := Given ''line_items'', arg_fld_source := Given ''column'',
            arg_fld_column_name := Given ''order_id''\<rparr>)]\<rparr>"

definition orders_args :: TableauSemanticModel_args where
  "orders_args = TableauSemanticModel_args0
     \<lparr>arg_workbook := Given (Dict (TableauWorkbook_args0
        \<lparr>arg_wb_id := Given ''wb1'', arg_wb_name := Given ''Sales''\<rparr>)),
      arg_datasources := Given [Dict (orders_datasource_args Absent)],
      arg_calculations := Given [Dict (TableauCalculation_args0
        \<lparr>arg_calc_id := Given ''c1'', arg_calc_name := Given ''Profit'',
         arg_calc_datasource_id := Given ''ds1'',
         arg_calc_expression := Given ''SUM([amount]) / SUM([qty])''\<rparr>)],
      arg_sheets := Given [Dict (TableauSheet_args0
        \<lparr>arg_sh_id := Given ''s1'', arg_sh_name := Given ''Sheet 1'',
         arg_sh_datasource_id := Given ''ds1'',
         arg_sh_used_field_ids := Given [''f1'', ''f2''],
         arg_sh_filters := Given [Dict (TableauSheetFilter_args0
           \<lparr>arg_flt_field_id := Given ''f1'',
            arg_flt_expression := Given ''[x] > 1''\<rparr>)],
         arg_sh_visualization := Given (Dict (TableauSheetVisualization_args0
           \<lparr>arg_viz_chart_type := Given ''bar'',
            arg_viz_primary_dimension_id := Given ''f2'',
            arg_viz_primary_measure_ids := Given [''f1'']\<rparr>))\<rparr>)]\<rparr>"

text \<open>The models the two calls return.\<close>

definition dangling_model :: TableauSemanticModel where
  "dangling_model =
     \<lparr>schema_version = ''1.0'',
      workbook = Some \<lparr>wb_id = ''wb1'', wb_name = ''Sales'', wb_description = None\<rparr>,
      datasources =
        [\<lparr>ds_id = ''ds1'', ds_name = ''Orders'',
          ds_connection =
            \<lparr>conn_type = ''unknown'', conn_dialect = None, conn_database = None,
             conn_schema = None, conn_table = None, conn_raw_sql = None\<rparr>,
          ds_tables = [],
          ds_joins =
            [\<lparr>join_id = ''j1'', join_left_table_id = ''t1'', join_right_table_id = ''t2'',
              join_type = ''unknown'', join_condition = ''[a] = [b]'',
              join_needs_manual_review = False\<rparr>],
          ds_fields =
            [\<lparr>fld_id = ''f1'', fld_name = ''Profit'', fld_caption = None,
              fld_table_id = None, fld_role = ''unknown'', fld_datatype = ''unknown'',
              fld_aggregation = None, fld_source = ''calculation'',
              fld_column_name = None, fld_calculation_id = Some ''c9'',
              fld_is_hidden = False, fld_tags = []\<rparr>]\<rparr>],
      calculations = [],
      sheets =
        [\<lparr>sh_id = ''s1'', sh_name = ''Sheet 1'', sh_datasource_id = ''ds1'',
          sh_used_field_ids = [],
          sh_filters =
            [\<lparr>flt_field_id = ''f7'', flt_expression = ''[x] > 1'',
              flt_applied_to = ''unknown''\<rparr>],
          sh_visualization = None, sh_description = None\<rparr>]\<rparr>"

definition orders_model :: TableauSemanticModel where
  "orders_model =
     \<lparr>schema_version = ''1.0'',
      workbook = Some \<lparr>wb_id = ''wb1'', wb_name = ''Sales'', wb_description = None\<rparr>,
      datasources =
        [\<lparr>ds_id = ''ds1'', ds_name = ''Orders'',
          ds_connection =
            \<lparr>conn_type = ''unknown'', conn_dialect = None, conn_database = None,
             conn_schema = None, conn_table = None, conn_raw_sql = None\<rparr>,
          ds_tables =
            [\<lparr>tbl_id = ''orders'', tbl_name = ''orders'', tbl_database = None,
              tbl_schema = None, tbl_table = None, tbl_is_primary = False\<rparr>,
             \<lparr>tbl_id = ''line_items'', tbl_name = ''line_items'', tbl_database = None,
              tbl_schema = None, tbl_table = None, tbl_is_primary = False\<rparr>],
          ds_joins =
            [\<lparr>join_id = ''j1'', join_left_table_id = ''orders'',
              join_right_table_id = ''line_items'', join_type = ''unknown'',
              join_condition = ''[orders.id] = [line_items.order_id]'',
              join_needs_manual_review = False\<rparr>],
          ds_fields =
            [\<lparr>fld_id = ''f1'', fld_name = ''Profit'', fld_caption = None,
              fld_table_id = None, fld_role = ''unknown'', fld_datatype = ''unknown'',
              fld_aggregation = None, fld_source = ''calculation'',
              fld_column_name = None, fld_calculation_id = Some ''c1'',
              fld_is_hidden = False, fld_tags = []\<rparr>,
             \<lparr>fld_id = ''f2'', fld_name = ''id'', fld_caption = None,
              fld_table_id = Some ''orders'', fld_role = ''unknown'',
              fld_datatype = ''unknown'', fld_aggregation = None, fld_source = ''column'',
              fld_column_name = Some ''id'', fld_calculation_id = None,
              fld_is_hidden = False, fld_tags = []\<rparr>,
             \<lparr>fld_id = ''f3'', fld_name = ''order_id'', fld_caption = None,
              fld_table_id = Some ''line_items'', fld_role = ''unknown'',
              fld_datatype = ''unknown'', fld_aggregation = None, fld_source = ''column'',
              fld_column_name = Some ''order_id'', fld_calculation_id = None,
              fld_is_hidden = False, fld_tags = []\<rparr>]\<rparr>],
      calculations =
        [\<lparr>calc_id = ''c1'', calc_name = ''Profit'', calc_datasource_id = ''ds1'',
          calc_expression = ''SUM([amount]) / SUM([qty])'', calc_datatype = ''unknown'',
          calc_category = ''unknown'', calc_complexity_score = float_zero\<rparr>],
      sheets =
        [\<lparr>sh_id = ''s1'', sh_name = ''Sheet 1'', sh_datasource_id = ''ds1'',
          sh_used_field_ids = [''f1'', ''f2''],
          sh_filters =
            [\<lparr>flt_field_id = ''f1'', flt_expression = ''[x] > 1'',
              flt_applied_to = ''unknown''\<rparr>],
          sh_visualization =
            Some \<lparr>viz_chart_type = ''bar'', viz_primary_dimension_id = Some ''f2'',
                  viz_primary_measure_ids = [''f1''], viz_split_by_dimension_ids = [],
                  viz_sort_order = None, viz_granularity = None\<rparr>,
          sh_description = None\<rparr>]\<rparr>"

text \<open>A calculation that is the bare column \<^verbatim>\<open>[amount]\<close>, with the score given.\<close>

definition amount_args :: "float64 arg \<Rightarrow> TableauCalculation_args" where
  "amount_args score = TableauCalculation_args0
     \<lparr>arg_calc_id := Given ''c1'', arg_calc_name := Given ''Amount'',
      arg_calc_datasource_id := Given ''ds1'', arg_calc_expression := Given ''[amount]'',
      arg_calc_complexity_score := score\<rparr>"

text \<open>The field \<^verbatim>\<open>order_id\<close>: a column, no role, datatype or aggregation given.\<close>

definition order_id_args :: TableauField_args where
  "order_id_args = TableauField_args0
     \<lparr>arg_fld_id := Given ''order_id'', arg_fld_name := Given ''order_id'',
      arg_fld_source := Given ''column'', arg_fld_column_name := Given ''order_id''\<rparr>"

text \<open>
  Adapters for the examples: the reader returns the bytes as the raw spec and counts
  its calls in the ambient state; the mapper returns the model it is given to return.
\<close>

definition counting_reader :: "bytes \<Rightarrow> (nat, bytes) call" where
  "counting_reader b s = (Inr b, Suc s)"

definition constant_mapper :: "TableauSemanticModel \<Rightarrow> bytes \<Rightarrow> (nat, TableauSemanticModel) call" where
  "constant_mapper m raw s = (Inr m, s)"

definition bare_model :: TableauSemanticModel where
  "bare_model =
     \<lparr>schema_version = ''1.0'', workbook = None, datasources = [], calculations = [],
      sheets = []\<rparr>"


section \<open>What a constructor call that returns has checked\<close>

lemma required_Some: "required a = Some v \<longleftrightarrow> a = Given v"
  by (simp add: required_def split: arg.splits)

lemma optional_Some:
  "optional a = Some v \<longleftrightarrow> v = (case a of Given x \<Rightarrow> Some x | _ \<Rightarrow> None)"
  by (auto simp: optional_def split: arg.splits)

lemma defaulted_Some: "defaulted d a = Some v \<longleftrightarrow> (a = Absent \<and> v = d) \<or> a = Given v"
  by (auto simp: defaulted_def split: arg.splits)

lemma literal_Some:
  "literal allowed d a = Some v \<longleftrightarrow>
     (a = Absent \<and> v = d) \<or> (a = Given v \<and> v \<in> set allowed)"
  by (auto simp: literal_def split: arg.splits)

lemma literal_in: "literal allowed d a = Some v \<Longrightarrow> d \<in> set allowed \<Longrightarrow> v \<in> set allowed"
  by (auto simp: literal_Some)

lemma literal_reject: "s \<notin> set allowed \<Longrightarrow> literal allowed d (Given s) = None"
  by (simp add: literal_def)

lemma literal_accept: "s \<in> set allowed \<Longrightarrow> literal allowed d (Given s) = Some s"
  by (simp add: literal_def)

lemma validated_Inr: "validated r = Inr m \<longleftrightarrow> r = Some m"
  by (simp add: validated_def split: option.splits)

lemma validated_Inl: "validated r = Inl e \<longleftrightarrow> r = None \<and> e = ValidationError"
  by (auto simp: validated_def split: option.splits)

lemma nested_Some:
  "nested new x = Some m \<longleftrightarrow> (case x of Dict a \<Rightarrow> new a = Inr m | Instance i \<Rightarrow> m = i)"
  by (auto simp: nested_def split: nested_arg.splits sum.splits)

lemma validate_each_SomeD:
  "validate_each v xs = Some ys \<Longrightarrow> list_all2 (\<lambda>x y. v x = Some y) xs ys"
  by (induction xs arbitrary: ys) (auto split: option.splits)

lemma validate_each_SomeI:
  "list_all2 (\<lambda>x y. v x = Some y) xs ys \<Longrightarrow> validate_each v xs = Some ys"
  by (induction rule: list_all2_induct) auto

lemma validate_each_Some:
  "validate_each v xs = Some ys \<longleftrightarrow> list_all2 (\<lambda>x y. v x = Some y) xs ys"
  using validate_each_SomeD [of v xs ys] validate_each_SomeI [of v xs ys] by blast

lemma model_list_Some:
  "model_list new a = Some ms \<longleftrightarrow>
     (a = Absent \<and> ms = []) \<or>
     (\<exists>xs. a = Given xs \<and> list_all2 (\<lambda>x m. nested new x = Some m) xs ms)"
proof (cases a)
  case Absent
  then show ?thesis by (auto simp: model_list_def)
next
  case Null
  then show ?thesis by (simp add: model_list_def)
next
  case (Given xs)
  then show ?thesis by (simp add: model_list_def validate_each_Some)
qed

lemma required_model_Some:
  "required_model new a = Some m \<longleftrightarrow> (\<exists>x. a = Given x \<and> nested new x = Some m)"
  by (cases a) (simp_all add: required_model_def)

lemma optional_model_Some:
  "optional_model new a = Some r \<longleftrightarrow>
     (case a of Given x \<Rightarrow> (\<exists>m. nested new x = Some m \<and> r = Some m) | _ \<Rightarrow> r = None)"
proof (cases a)
  case (Given x)
  then show ?thesis
    by (cases "nested new x") (auto simp: optional_model_def)
qed (auto simp: optional_model_def)

subsection \<open>A call that returns holds its arguments as given\<close>

text \<open>
  Each kind of field, when it is accepted, holds the argument as given or the default.
\<close>

lemma nested_given:
  assumes "nested new x = Some m" and "\<And>a m. new a = Inr m \<Longrightarrow> as_given a = m"
  shows "instance_of as_given x = m"
proof (cases x)
  case (Dict a)
  with assms(1) have "new a = Inr m"
    by (simp add: nested_Some)
  then have "as_given a = m"
    by (rule assms(2))
  with Dict show ?thesis by simp
next
  case (Instance i)
  with assms(1) show ?thesis
    by (simp add: nested_Some)
qed

lemma required_model_given:
  assumes "required_model new a = Some m" and "\<And>a m. new a = Inr m \<Longrightarrow> as_given a = m"
  shows "instance_of as_given (given_or d a) = m"
proof -
  from assms(1) obtain x where x: "a = Given x" "nested new x = Some m"
    unfolding required_model_Some by blast
  from x(2) have "instance_of as_given x = m"
    by (rule nested_given) (rule assms(2))
  with x(1) show ?thesis
    by (simp add: given_or_def)
qed

lemma optional_model_given:
  assumes "optional_model new a = Some r" and "\<And>a m. new a = Inr m \<Longrightarrow> as_given a = m"
  shows "map_option (instance_of as_given) (given_option a) = r"
proof (cases a)
  case (Given x)
  with assms(1) obtain m where m: "nested new x = Some m" "r = Some m"
    by (auto simp: optional_model_Some)
  from m(1) have "instance_of as_given x = m"
    by (rule nested_given) (rule assms(2))
  with Given m(2) show ?thesis
    by (simp add: given_option_def)
next
  case Absent
  with assms(1) show ?thesis by (simp add: optional_model_Some given_option_def)
next
  case Null
  with assms(1) show ?thesis by (simp add: optional_model_Some given_option_def)
qed

lemma list_all2_given:
  assumes "list_all2 (\<lambda>x m. nested new x = Some m) xs ms"
    and "\<And>a m. new a = Inr m \<Longrightarrow> as_given a = m"
  shows "map (instance_of as_given) xs = ms"
  using assms(1)
proof (induction rule: list_all2_induct)
  case Nil
  then show ?case by simp
next
  case (Cons x xs m ms)
  from Cons.hyps(1) have "instance_of as_given x = m"
    by (rule nested_given) (rule assms(2))
  with Cons.IH show ?case by simp
qed

lemma model_list_given:
  assumes "model_list new a = Some ms" and "\<And>a m. new a = Inr m \<Longrightarrow> as_given a = m"
  shows "map (instance_of as_given) (given_or [] a) = ms"
proof (cases a)
  case (Given xs)
  with assms(1) have "list_all2 (\<lambda>x m. nested new x = Some m) xs ms"
    by (simp add: model_list_Some)
  then have "map (instance_of as_given) xs = ms"
    by (rule list_all2_given) (rule assms(2))
  with Given show ?thesis by (simp add: given_or_def)
next
  case Absent
  with assms(1) show ?thesis by (simp add: model_list_Some given_or_def)
next
  case Null
  with assms(1) show ?thesis by (simp add: model_list_Some)
qed

subsection \<open>Each constructor, field by field\<close>

lemma TableauWorkbook_new_Inr:
  "TableauWorkbook_new a = Inr w \<longleftrightarrow>
     required (arg_wb_id a) = Some (wb_id w) \<and>
     required (arg_wb_name a) = Some (wb_name w) \<and>
     optional (arg_wb_description a) = Some (wb_description w)"
  by (cases w) (auto simp: TableauWorkbook_new_def validated_Inr bind_eq_Some_conv)

lemma TableauConnection_new_Inr:
  "TableauConnection_new a = Inr c \<longleftrightarrow>
     literal connection_type_values ''unknown'' (arg_conn_type a) = Some (conn_type c) \<and>
     optional (arg_conn_dialect a) = Some (conn_dialect c) \<and>
     optional (arg_conn_database a) = Some (conn_database c) \<and>
     optional (arg_conn_schema a) = Some (conn_schema c) \<and>
     optional (arg_conn_table a) = Some (conn_table c) \<and>
     optional (arg_conn_raw_sql a) = Some (conn_raw_sql c)"
  by (cases c) (auto simp: TableauConnection_new_def validated_Inr bind_eq_Some_conv)

lemma TableauTable_new_Inr:
  "TableauTable_new a = Inr t \<longleftrightarrow>
     required (arg_tbl_id a) = Some (tbl_id t) \<and>
     required (arg_tbl_name a) = Some (tbl_name t) \<and>
     optional (arg_tbl_database a) = Some (tbl_database t) \<and>
     optional (arg_tbl_schema a) = Some (tbl_schema t) \<and>
     optional (arg_tbl_table a) = Some (tbl_table t) \<and>
     defaulted False (arg_tbl_is_primary a) = Some (tbl_is_primary t)"
  by (cases t) (auto simp: TableauTable_new_def validated_Inr bind_eq_Some_conv)

lemma TableauJoin_new_Inr:
  "TableauJoin_new a = Inr j \<longleftrightarrow>
     required (arg_join_id a) = Some (join_id j) \<and>
     required (arg_join_left_table_id a) = Some (join_left_table_id j) \<and>
     required (arg_join_right_table_id a) = Some (join_right_table_id j) \<and>
     literal join_type_values ''unknown'' (arg_join_type a) = Some (join_type j) \<and>
     required (arg_join_condition a) = Some (join_condition j) \<and>
     defaulted False (arg_join_needs_manual_review a) = Some (join_needs_manual_review j)"
  by (cases j) (auto simp: TableauJoin_new_def validated_Inr bind_eq_Some_conv)

lemma TableauField_new_Inr:
  "TableauField_new a = Inr f \<longleftrightarrow>
     required (arg_fld_id a) = Some (fld_id f) \<and>
     required (arg_fld_name a) = Some (fld_name f) \<and>
     optional (arg_fld_caption a) = Some (fld_caption f) \<and>
     optional (arg_fld_table_id a) = Some (fld_table_id f) \<and>
     literal role_values ''unknown'' (arg_fld_role a) = Some (fld_role f) \<and>
     literal datatype_values ''unknown'' (arg_fld_datatype a) = Some (fld_datatype f) \<and>
     optional (arg_fld_aggregation a) = Some (fld_aggregation f) \<and>
     literal source_values ''unknown'' (arg_fld_source a) = Some (fld_source f) \<and>
     optional (arg_fld_column_name a) = Some (fld_column_name f) \<and>
     optional (arg_fld_calculation_id a) = Some (fld_calculation_id f) \<and>
     defaulted False (arg_fld_is_hidden a) = Some (fld_is_hidden f) \<and>
     defaulted [] (arg_fld_tags a) = Some (fld_tags f)"
  by (cases f) (auto simp: TableauField_new_def validated_Inr bind_eq_Some_conv)

lemma TableauCalculation_new_Inr:
  "TableauCalculation_new a = Inr c \<longleftrightarrow>
     required (arg_calc_id a) = Some (calc_id c) \<and>
     required (arg_calc_name a) = Some (calc_name c) \<and>
     required (arg_calc_datasource_id a) = Some (calc_datasource_id c) \<and>
     required (arg_calc_expression a) = Some (calc_expression c) \<and>
     literal datatype_values ''unknown'' (arg_calc_datatype a) = Some (calc_datatype c) \<and>
     literal category_values ''unknown'' (arg_calc_category a) = Some (calc_category c) \<and>
     defaulted float_zero (arg_calc_complexity_score a) = Some (calc_complexity_score c)"
  by (cases c) (auto simp: TableauCalculation_new_def validated_Inr bind_eq_Some_conv)

lemma TableauSheetFilter_new_Inr:
  "TableauSheetFilter_new a = Inr x \<longleftrightarrow>
     required (arg_flt_field_id a) = Some (flt_field_id x) \<and>
     required (arg_flt_expression a) = Some (flt_expression x) \<and>
     literal applied_to_values ''unknown'' (arg_flt_applied_to a) = Some (flt_applied_to x)"
  by (cases x) (auto simp: TableauSheetFilter_new_def validated_Inr bind_eq_Some_conv)

lemma TableauSheetVisualization_new_Inr:
  "TableauSheetVisualization_new a = Inr v \<longleftrightarrow>
     literal chart_type_values ''unknown'' (arg_viz_chart_type a) = Some (viz_chart_type v) \<and>
     optional (arg_viz_primary_dimension_id a) = Some (viz_primary_dimension_id v) \<and>
     defaulted [] (arg_viz_primary_measure_ids a) = Some (viz_primary_measure_ids v) \<and>
     defaulted [] (arg_viz_split_by_dimension_ids a) = Some (viz_split_by_dimension_ids v) \<and>
     optional (arg_viz_sort_order a) = Some (viz_sort_order v) \<and>
     optional (arg_viz_granularity a) = Some (viz_granularity v)"
  by (cases v) (auto simp: TableauSheetVisualization_new_def validated_Inr bind_eq_Some_conv)

lemma TableauSheet_new_Inr:
  "TableauSheet_new a = Inr s \<longleftrightarrow>
     required (arg_sh_id a) = Some (sh_id s) \<and>
     required (arg_sh_name a) = Some (sh_name s) \<and>
     required (arg_sh_datasource_id a) = Some (sh_datasource_id s) \<and>
     defaulted [] (arg_sh_used_field_ids a) = Some (sh_used_field_ids s) \<and>
     model_list TableauSheetFilter_new (arg_sh_filters a) = Some (sh_filters s) \<and>
     optional_model TableauSheetVisualization_new (arg_sh_visualization a)
       = Some (sh_visualization s) \<and>
     optional (arg_sh_description a) = Some (sh_description s)"
  by (cases s) (auto simp: TableauSheet_new_def validated_Inr bind_eq_Some_conv)

lemma TableauDatasource_new_Inr:
  "TableauDatasource_new a = Inr d \<longleftrightarrow>
     required (arg_ds_id a) = Some (ds_id d) \<and>
     required (arg_ds_name a) = Some (ds_name d) \<and>
     required_model TableauConnection_new (arg_ds_connection a) = Some (ds_connection d) \<and>
     model_list TableauTable_new (arg_ds_tables a) = Some (ds_tables d) \<and>
     model_list TableauJoin_new (arg_ds_joins a) = Some (ds_joins d) \<and>
     model_list TableauField_new (arg_ds_fields a) = Some (ds_fields d)"
  by (cases d) (auto simp: TableauDatasource_new_def validated_Inr bind_eq_Some_conv)

lemma TableauSemanticModel_new_Inr:
  "TableauSemanticModel_new a = Inr m \<longleftrightarrow>
     defaulted ''1.0'' (arg_schema_version a) = Some (schema_version m) \<and>
     (\<exists>w. required_model TableauWorkbook_new (arg_workbook a) = Some w \<and>
          workbook m = Some w) \<and>
     model_list TableauDatasource_new (arg_datasources a) = Some (datasources m) \<and>
     model_list TableauCalculation_new (arg_calculations a) = Some (calculations m) \<and>
     model_list TableauSheet_new (arg_sheets a) = Some (sheets m)"
  by (cases m) (auto simp: TableauSemanticModel_new_def validated_Inr bind_eq_Some_conv)

subsection \<open>Each constructor holds its arguments as given\<close>

lemma given_or_Given: "given_or d (Given v) = v"
  by (simp add: given_or_def)

lemma optional_iff: "optional a = Some v \<longleftrightarrow> given_option a = v"
  by (auto simp: optional_Some given_option_def)

lemma defaulted_iff: "defaulted d a = Some v \<longleftrightarrow> a \<noteq> Null \<and> given_or d a = v"
  by (cases a) (auto simp: defaulted_def given_or_def)

lemma literal_iff:
  "literal allowed d a = Some v \<longleftrightarrow>
     a \<noteq> Null \<and> given_or d a = v \<and> (a = Absent \<or> v \<in> set allowed)"
  by (cases a) (auto simp: literal_def given_or_def)

lemmas given_simps = required_Some given_or_Given optional_iff defaulted_iff literal_iff

lemma TableauWorkbook_new_as_given:
  "TableauWorkbook_new a = Inr w \<Longrightarrow> TableauWorkbook_as_given a = w"
  by (cases w) (simp add: TableauWorkbook_new_Inr TableauWorkbook_as_given_def given_simps)

lemma TableauConnection_new_as_given:
  "TableauConnection_new a = Inr c \<Longrightarrow> TableauConnection_as_given a = c"
  by (cases c) (simp add: TableauConnection_new_Inr TableauConnection_as_given_def given_simps)

lemma TableauTable_new_as_given:
  "TableauTable_new a = Inr t \<Longrightarrow> TableauTable_as_given a = t"
  by (cases t) (simp add: TableauTable_new_Inr TableauTable_as_given_def given_simps)

lemma TableauJoin_new_as_given:
  "TableauJoin_new a = Inr j \<Longrightarrow> TableauJoin_as_given a = j"
  by (cases j) (simp add: TableauJoin_new_Inr TableauJoin_as_given_def given_simps)

lemma TableauField_new_as_given:
  "TableauField_new a = Inr f \<Longrightarrow> TableauField_as_given a = f"
  by (cases f) (simp add: TableauField_new_Inr TableauField_as_given_def given_simps)

lemma TableauCalculation_new_as_given:
  "TableauCalculation_new a = Inr c \<Longrightarrow> TableauCalculation_as_given a = c"
  by (cases c)
    (simp add: TableauCalculation_new_Inr TableauCalculation_as_given_def given_simps)

lemma TableauSheetFilter_new_as_given:
  "TableauSheetFilter_new a = Inr x \<Longrightarrow> TableauSheetFilter_as_given a = x"
  by (cases x)
    (simp add: TableauSheetFilter_new_Inr TableauSheetFilter_as_given_def given_simps)

lemma TableauSheetVisualization_new_as_given:
  "TableauSheetVisualization_new a = Inr v \<Longrightarrow> TableauSheetVisualization_as_given a = v"
  by (cases v)
    (simp add: TableauSheetVisualization_new_Inr TableauSheetVisualization_as_given_def
      given_simps)

lemma TableauSheet_new_as_given:
  assumes "TableauSheet_new a = Inr s"
  shows "TableauSheet_as_given a = s"
proof -
  note h = assms [unfolded TableauSheet_new_Inr]
  from h have
    "map (instance_of TableauSheetFilter_as_given) (given_or [] (arg_sh_filters a))
       = sh_filters s"
    by (intro model_list_given [where new = TableauSheetFilter_new])
      (simp_all add: TableauSheetFilter_new_as_given)
  moreover from h have
    "map_option (instance_of TableauSheetVisualization_as_given)
       (given_option (arg_sh_visualization a)) = sh_visualization s"
    by (intro optional_model_given [where new = TableauSheetVisualization_new])
      (simp_all add: TableauSheetVisualization_new_as_given)
  ultimately show ?thesis
    using h by (cases s) (simp add: TableauSheet_as_given_def given_simps)
qed

lemma TableauDatasource_new_as_given:
  assumes "TableauDatasource_new a = Inr d"
  shows "TableauDatasource_as_given a = d"
proof -
  note h = assms [unfolded TableauDatasource_new_Inr]
  from h have
    "instance_of TableauConnection_as_given
       (given_or (Dict TableauConnection_args0) (arg_ds_connection a)) = ds_connection d"
    by (intro required_model_given [where new = TableauConnection_new])
      (simp_all add: TableauConnection_new_as_given)
  moreover from h have
    "map (instance_of TableauTable_as_given) (given_or [] (arg_ds_tables a)) = ds_tables d"
    by (intro model_list_given [where new = TableauTable_new])
      (simp_all add: TableauTable_new_as_given)
  moreover from h have
    "map (instance_of TableauJoin_as_given) (given_or [] (arg_ds_joins a)) = ds_joins d"
    by (intro model_list_given [where new = TableauJoin_new])
      (simp_all add: TableauJoin_new_as_given)
  moreover from h have
    "map (instance_of TableauField_as_given) (given_or [] (arg_ds_fields a)) = ds_fields d"
    by (intro model_list_given [where new = TableauField_new])
      (simp_all add: TableauField_new_as_given)
  ultimately show ?thesis
    using h by (cases d) (simp add: TableauDatasource_as_given_def given_simps)
qed

lemma TableauSemanticModel_new_as_given:
  assumes "TableauSemanticModel_new a = Inr m"
  shows "TableauSemanticModel_as_given a = m"
proof -
  note h = assms [unfolded TableauSemanticModel_new_Inr]
  from h obtain w where
    w: "required_model TableauWorkbook_new (arg_workbook a) = Some w" "workbook m = Some w"
    by blast
  from w(1) obtain x where x: "arg_workbook a = Given x" "nested TableauWorkbook_new x = Some w"
    by (auto simp: required_model_Some)
  from x(2) have "instance_of TableauWorkbook_as_given x = w"
    by (rule nested_given) (rule TableauWorkbook_new_as_given)
  with x(1) w(2) have
    "map_option (instance_of TableauWorkbook_as_given) (given_option (arg_workbook a))
       = workbook m"
    by (simp add: given_option_def)
  moreover from h have
    "map (instance_of TableauDatasource_as_given) (given_or [] (arg_datasources a))
       = datasources m"
    by (intro model_list_given [where new = TableauDatasource_new])
      (simp_all add: TableauDatasource_new_as_given)
  moreover from h have
    "map (instance_of TableauCalculation_as_given) (given_or [] (arg_calculations a))
       = calculations m"
    by (intro model_list_given [where new = TableauCalculation_new])
      (simp_all add: TableauCalculation_new_as_given)
  moreover from h have
    "map (instance_of TableauSheet_as_given) (given_or [] (arg_sheets a)) = sheets m"
    by (intro model_list_given [where new = TableauSheet_new])
      (simp_all add: TableauSheet_new_as_given)
  ultimately show ?thesis
    using h by (cases m) (simp add: TableauSemanticModel_as_given_def given_simps)
qed

text \<open>The only error of a constructor is the validation error.\<close>

lemma validated_cases: "validated r = Inl ValidationError \<or> (\<exists>m. validated r = Inr m)"
  by (cases r) (simp_all add: validated_def)


lemma unknown_values:
  "''unknown'' \<in> set connection_type_values" "''unknown'' \<in> set join_type_values"
  "''unknown'' \<in> set role_values" "''unknown'' \<in> set datatype_values"
  "''unknown'' \<in> set source_values" "''unknown'' \<in> set category_values"
  "''unknown'' \<in> set applied_to_values" "''unknown'' \<in> set chart_type_values"
  by (simp_all add: connection_type_values_def join_type_values_def role_values_def
      datatype_values_def source_values_def category_values_def applied_to_values_def
      chart_type_values_def)

lemma TableauField_new_error: "TableauField_new a = Inl ValidationError \<or> (\<exists>f. TableauField_new a = Inr f)"
  unfolding TableauField_new_def by (rule validated_cases)

lemma TableauCalculation_new_error:
  "TableauCalculation_new a = Inl ValidationError \<or> (\<exists>c. TableauCalculation_new a = Inr c)"
  unfolding TableauCalculation_new_def by (rule validated_cases)

lemma TableauConnection_new_error:
  "TableauConnection_new a = Inl ValidationError \<or> (\<exists>c. TableauConnection_new a = Inr c)"
  unfolding TableauConnection_new_def by (rule validated_cases)


section \<open>The LookML project\<close>

text \<open>
  C5. For every LookMLProject, \<^verbatim>\<open>all_files()\<close> is the model files, then the view files,
  then the dashboard files, each list in its own order; its length is the sum of the
  three lengths. The three lists are the consecutive segments of the result.
\<close>

theorem all_files_concat:
  "all_files p = model_files p @ view_files p @ dashboard_files p \<and>
   length (all_files p) =
     length (model_files p) + length (view_files p) + length (dashboard_files p) \<and>
   take (length (model_files p)) (all_files p) = model_files p \<and>
   take (length (view_files p)) (drop (length (model_files p)) (all_files p)) = view_files p \<and>
   drop (length (model_files p) + length (view_files p)) (all_files p) = dashboard_files p"
  by (simp add: all_files_def)

section \<open>Defaults of a field\<close>

lemma literal_Absent: "literal allowed d Absent = Some d"
  by (simp add: literal_def)

lemma plain_field:
  "TableauField_new (TableauField_args0\<lparr>arg_fld_id := Given i, arg_fld_name := Given n\<rparr>) =
     Inr \<lparr>fld_id = i, fld_name = n, fld_caption = None, fld_table_id = None,
          fld_role = ''unknown'', fld_datatype = ''unknown'', fld_aggregation = None,
          fld_source = ''unknown'', fld_column_name = None, fld_calculation_id = None,
          fld_is_hidden = False, fld_tags = []\<rparr>"
  by (simp add: TableauField_new_def TableauField_args0_def validated_def required_def
      optional_def defaulted_def literal_def)

text \<open>
  C6. A TableauField constructed with no role given has role \<^verbatim>\<open>"unknown"\<close>, which is
  neither \<^verbatim>\<open>"dimension"\<close> nor \<^verbatim>\<open>"measure"\<close>; its datatype and its source are
  \<^verbatim>\<open>"unknown"\<close> when not given. Each holds whatever the other arguments are, and
  the constructor does return: leaving the role, the datatype or the source out of a
  call that returns gives a call that returns, with \<^verbatim>\<open>"unknown"\<close> in that field; and a
  call with an id and a name and nothing else returns the field whose role, datatype
  and source are all \<^verbatim>\<open>"unknown"\<close>.
\<close>

theorem TableauField_defaults:
  assumes "TableauField_new a = Inr f"
  shows "(arg_fld_role a = Absent \<longrightarrow>
            fld_role f = ''unknown'' \<and> fld_role f \<noteq> ''dimension'' \<and> fld_role f \<noteq> ''measure'') \<and>
         (arg_fld_datatype a = Absent \<longrightarrow> fld_datatype f = ''unknown'') \<and>
         (arg_fld_source a = Absent \<longrightarrow> fld_source f = ''unknown'') \<and>
         TableauField_new (a\<lparr>arg_fld_role := Absent\<rparr>) = Inr (f\<lparr>fld_role := ''unknown''\<rparr>) \<and>
         TableauField_new (a\<lparr>arg_fld_datatype := Absent\<rparr>)
           = Inr (f\<lparr>fld_datatype := ''unknown''\<rparr>) \<and>
         TableauField_new (a\<lparr>arg_fld_source := Absent\<rparr>)
           = Inr (f\<lparr>fld_source := ''unknown''\<rparr>) \<and>
         TableauField_new (TableauField_args0\<lparr>arg_fld_id := Given i, arg_fld_name := Given n\<rparr>) =
           Inr \<lparr>fld_id = i, fld_name = n, fld_caption = None, fld_table_id = None,
                fld_role = ''unknown'', fld_datatype = ''unknown'', fld_aggregation = None,
                fld_source = ''unknown'', fld_column_name = None, fld_calculation_id = None,
                fld_is_hidden = False, fld_tags = []\<rparr>"
proof -
  from assms have
    r: "literal role_values ''unknown'' (arg_fld_role a) = Some (fld_role f)" and
    d: "literal datatype_values ''unknown'' (arg_fld_datatype a) = Some (fld_datatype f)" and
    s: "literal source_values ''unknown'' (arg_fld_source a) = Some (fld_source f)"
    by (simp_all add: TableauField_new_Inr)
  from r have "arg_fld_role a = Absent \<longrightarrow> fld_role f = ''unknown''"
    by (auto simp: literal_Some)
  moreover from d have "arg_fld_datatype a = Absent \<longrightarrow> fld_datatype f = ''unknown''"
    by (auto simp: literal_Some)
  moreover from s have "arg_fld_source a = Absent \<longrightarrow> fld_source f = ''unknown''"
    by (auto simp: literal_Some)
  moreover from assms have
    "TableauField_new (a\<lparr>arg_fld_role := Absent\<rparr>) = Inr (f\<lparr>fld_role := ''unknown''\<rparr>)"
    by (simp add: TableauField_new_Inr literal_Absent)
  moreover from assms have
    "TableauField_new (a\<lparr>arg_fld_datatype := Absent\<rparr>) = Inr (f\<lparr>fld_datatype := ''unknown''\<rparr>)"
    by (simp add: TableauField_new_Inr literal_Absent)
  moreover from assms have
    "TableauField_new (a\<lparr>arg_fld_source := Absent\<rparr>) = Inr (f\<lparr>fld_source := ''unknown''\<rparr>)"
    by (simp add: TableauField_new_Inr literal_Absent)
  ultimately show ?thesis
    by (simp add: plain_field)
qed

lemma order_id_field:
  "TableauField_new order_id_args =
     Inr \<lparr>fld_id = ''order_id'', fld_name = ''order_id'', fld_caption = None,
          fld_table_id = None, fld_role = ''unknown'', fld_datatype = ''unknown'',
          fld_aggregation = None, fld_source = ''column'', fld_column_name = Some ''order_id'',
          fld_calculation_id = None, fld_is_hidden = False, fld_tags = []\<rparr>"
  by (simp add: TableauField_new_def order_id_args_def TableauField_args0_def validated_def
      required_def optional_def defaulted_def literal_def source_values_def)

theorem TableauField_defaults_witness:
  "arg_fld_role order_id_args = Absent \<and> arg_fld_datatype order_id_args = Absent \<and>
   (case TableauField_new order_id_args of
      Inl e \<Rightarrow> False
    | Inr f \<Rightarrow> fld_role f = ''unknown'' \<and> fld_datatype f = ''unknown'' \<and>
               fld_source f = ''column'') \<and>
   (case TableauField_new (order_id_args\<lparr>arg_fld_source := Absent\<rparr>) of
      Inl e \<Rightarrow> False
    | Inr f \<Rightarrow> fld_role f = ''unknown'' \<and> fld_datatype f = ''unknown'' \<and>
               fld_source f = ''unknown'' \<and> fld_column_name f = Some ''order_id'') \<and>
   (case TableauField_new
           (TableauField_args0
              \<lparr>arg_fld_id := Given ''order_id'', arg_fld_name := Given ''order_id''\<rparr>) of
      Inl e \<Rightarrow> False
    | Inr f \<Rightarrow> fld_role f = ''unknown'' \<and> fld_datatype f = ''unknown'' \<and>
               fld_source f = ''unknown'')"
proof -
  have "arg_fld_role order_id_args = Absent" and "arg_fld_datatype order_id_args = Absent"
    by (simp_all add: order_id_args_def TableauField_args0_def)
  with TableauField_defaults
      [OF order_id_field, where i = "''order_id''" and n = "''order_id''"]
  show ?thesis
    by (simp add: order_id_field)
qed


section \<open>Closed enumerations\<close>

lemma literal_unknown:
  "''unknown'' \<in> set allowed \<Longrightarrow> literal allowed d (Given ''unknown'') = Some ''unknown''"
  by (rule literal_accept)

text \<open>
  C8. The role, datatype and source of a TableauField, the category of a
  TableauCalculation and the type of a TableauConnection are closed enumerations: a
  call that gives one of them a string outside its declared set raises the validation
  error, whatever the other arguments; and \<^verbatim>\<open>"unknown"\<close> is always accepted: a call that
  returns still returns, with that value in the field, when the argument is changed to
  \<^verbatim>\<open>"unknown"\<close>.
\<close>

theorem closed_enumerations:
  "(s \<notin> set role_values \<longrightarrow>
      TableauField_new (fa\<lparr>arg_fld_role := Given s\<rparr>) = Inl ValidationError) \<and>
   (s \<notin> set datatype_values \<longrightarrow>
      TableauField_new (fa\<lparr>arg_fld_datatype := Given s\<rparr>) = Inl ValidationError) \<and>
   (s \<notin> set source_values \<longrightarrow>
      TableauField_new (fa\<lparr>arg_fld_source := Given s\<rparr>) = Inl ValidationError) \<and>
   (s \<notin> set category_values \<longrightarrow>
      TableauCalculation_new (ca\<lparr>arg_calc_category := Given s\<rparr>) = Inl ValidationError) \<and>
   (s \<notin> set connection_type_values \<longrightarrow>
      TableauConnection_new (na\<lparr>arg_conn_type := Given s\<rparr>) = Inl ValidationError) \<and>
   (TableauField_new fa = Inr f \<longrightarrow>
      TableauField_new (fa\<lparr>arg_fld_role := Given ''unknown''\<rparr>)
        = Inr (f\<lparr>fld_role := ''unknown''\<rparr>) \<and>
      TableauField_new (fa\<lparr>arg_fld_datatype := Given ''unknown''\<rparr>)
        = Inr (f\<lparr>fld_datatype := ''unknown''\<rparr>) \<and>
      TableauField_new (fa\<lparr>arg_fld_source := Given ''unknown''\<rparr>)
        = Inr (f\<lparr>fld_source := ''unknown''\<rparr>)) \<and>
   (TableauCalculation_new ca = Inr c \<longrightarrow>
      TableauCalculation_new (ca\<lparr>arg_calc_category := Given ''unknown''\<rparr>)
        = Inr (c\<lparr>calc_category := ''unknown''\<rparr>)) \<and>
   (TableauConnection_new na = Inr n \<longrightarrow>
      TableauConnection_new (na\<lparr>arg_conn_type := Given ''unknown''\<rparr>)
        = Inr (n\<lparr>conn_type := ''unknown''\<rparr>))"
proof -
  have no_role: "TableauField_new (fa\<lparr>arg_fld_role := Given s\<rparr>) = Inl ValidationError"
    if "s \<notin> set role_values"
    using TableauField_new_error [of "fa\<lparr>arg_fld_role := Given s\<rparr>"] that
    by (auto simp: TableauField_new_Inr literal_reject)
  have no_datatype: "TableauField_new (fa\<lparr>arg_fld_datatype := Given s\<rparr>) = Inl ValidationError"
    if "s \<notin> set datatype_values"
    using TableauField_new_error [of "fa\<lparr>arg_fld_datatype := Given s\<rparr>"] that
    by (auto simp: TableauField_new_Inr literal_reject)
  have no_source: "TableauField_new (fa\<lparr>arg_fld_source := Given s\<rparr>) = Inl ValidationError"
    if "s \<notin> set source_values"
    using TableauField_new_error [of "fa\<lparr>arg_fld_source := Given s\<rparr>"] that
    by (auto simp: TableauField_new_Inr literal_reject)
  have no_category:
    "TableauCalculation_new (ca\<lparr>arg_calc_category := Given s\<rparr>) = Inl ValidationError"
    if "s \<notin> set category_values"
    using TableauCalculation_new_error [of "ca\<lparr>arg_calc_category := Given s\<rparr>"] that
    by (auto simp: TableauCalculation_new_Inr literal_reject)
  have no_type: "TableauConnection_new (na\<lparr>arg_conn_type := Given s\<rparr>) = Inl ValidationError"
    if "s \<notin> set connection_type_values"
    using TableauConnection_new_error [of "na\<lparr>arg_conn_type := Given s\<rparr>"] that
    by (auto simp: TableauConnection_new_Inr literal_reject)
  have field_unknown:
    "TableauField_new (fa\<lparr>arg_fld_role := Given ''unknown''\<rparr>)
       = Inr (f\<lparr>fld_role := ''unknown''\<rparr>) \<and>
     TableauField_new (fa\<lparr>arg_fld_datatype := Given ''unknown''\<rparr>)
       = Inr (f\<lparr>fld_datatype := ''unknown''\<rparr>) \<and>
     TableauField_new (fa\<lparr>arg_fld_source := Given ''unknown''\<rparr>)
       = Inr (f\<lparr>fld_source := ''unknown''\<rparr>)"
    if "TableauField_new fa = Inr f"
    using that by (simp add: TableauField_new_Inr literal_unknown unknown_values)
  have calculation_unknown:
    "TableauCalculation_new (ca\<lparr>arg_calc_category := Given ''unknown''\<rparr>)
       = Inr (c\<lparr>calc_category := ''unknown''\<rparr>)"
    if "TableauCalculation_new ca = Inr c"
    using that by (simp add: TableauCalculation_new_Inr literal_unknown unknown_values)
  have connection_unknown:
    "TableauConnection_new (na\<lparr>arg_conn_type := Given ''unknown''\<rparr>)
       = Inr (n\<lparr>conn_type := ''unknown''\<rparr>)"
    if "TableauConnection_new na = Inr n"
    using that by (simp add: TableauConnection_new_Inr literal_unknown unknown_values)
  from no_role no_datatype no_source no_category no_type field_unknown calculation_unknown
    connection_unknown
  show ?thesis by blast
qed

lemma amount_calculation:
  "TableauCalculation_new (amount_args (Given x)) =
     Inr \<lparr>calc_id = ''c1'', calc_name = ''Amount'', calc_datasource_id = ''ds1'',
          calc_expression = ''[amount]'', calc_datatype = ''unknown'',
          calc_category = ''unknown'', calc_complexity_score = x\<rparr>"
  "TableauCalculation_new (amount_args Absent) =
     Inr \<lparr>calc_id = ''c1'', calc_name = ''Amount'', calc_datasource_id = ''ds1'',
          calc_expression = ''[amount]'', calc_datatype = ''unknown'',
          calc_category = ''unknown'', calc_complexity_score = float_zero\<rparr>"
  by (simp_all add: TableauCalculation_new_def amount_args_def TableauCalculation_args0_def
      validated_def required_def defaulted_def literal_def)

lemma default_connection:
  "TableauConnection_new TableauConnection_args0 =
     Inr \<lparr>conn_type = ''unknown'', conn_dialect = None, conn_database = None,
          conn_schema = None, conn_table = None, conn_raw_sql = None\<rparr>"
  by (simp add: TableauConnection_new_def TableauConnection_args0_def validated_def
      optional_def literal_def)

lemma metric_outside:
  "''metric'' \<notin> set role_values" "''metric'' \<notin> set datatype_values"
  "''metric'' \<notin> set source_values" "''metric'' \<notin> set category_values"
  "''metric'' \<notin> set connection_type_values"
  by (simp_all add: role_values_def datatype_values_def source_values_def
      category_values_def connection_type_values_def)

theorem closed_enumerations_witness:
  "TableauField_new (order_id_args\<lparr>arg_fld_role := Given ''metric''\<rparr>) = Inl ValidationError \<and>
   TableauField_new (order_id_args\<lparr>arg_fld_datatype := Given ''metric''\<rparr>)
     = Inl ValidationError \<and>
   TableauField_new (order_id_args\<lparr>arg_fld_source := Given ''metric''\<rparr>)
     = Inl ValidationError \<and>
   TableauCalculation_new (amount_args Absent\<lparr>arg_calc_category := Given ''metric''\<rparr>)
     = Inl ValidationError \<and>
   TableauConnection_new (TableauConnection_args0\<lparr>arg_conn_type := Given ''metric''\<rparr>)
     = Inl ValidationError \<and>
   (case TableauField_new (order_id_args\<lparr>arg_fld_role := Given ''unknown''\<rparr>) of
      Inl e \<Rightarrow> False | Inr f \<Rightarrow> fld_role f = ''unknown'') \<and>
   (case TableauField_new (order_id_args\<lparr>arg_fld_datatype := Given ''unknown''\<rparr>) of
      Inl e \<Rightarrow> False | Inr f \<Rightarrow> fld_datatype f = ''unknown'') \<and>
   (case TableauField_new (order_id_args\<lparr>arg_fld_source := Given ''unknown''\<rparr>) of
      Inl e \<Rightarrow> False | Inr f \<Rightarrow> fld_source f = ''unknown'') \<and>
   (case TableauCalculation_new (amount_args Absent\<lparr>arg_calc_category := Given ''unknown''\<rparr>) of
      Inl e \<Rightarrow> False | Inr c \<Rightarrow> calc_category c = ''unknown'') \<and>
   (case TableauConnection_new (TableauConnection_args0\<lparr>arg_conn_type := Given ''unknown''\<rparr>) of
      Inl e \<Rightarrow> False | Inr n \<Rightarrow> conn_type n = ''unknown'')"
  using closed_enumerations
      [where s = "''metric''" and fa = order_id_args and ca = "amount_args Absent"
         and na = TableauConnection_args0
         and f = "\<lparr>fld_id = ''order_id'', fld_name = ''order_id'', fld_caption = None,
            fld_table_id = None, fld_role = ''unknown'', fld_datatype = ''unknown'',
            fld_aggregation = None, fld_source = ''column'',
            fld_column_name = Some ''order_id'', fld_calculation_id = None,
            fld_is_hidden = False, fld_tags = []\<rparr>"
         and c = "\<lparr>calc_id = ''c1'', calc_name = ''Amount'', calc_datasource_id = ''ds1'',
            calc_expression = ''[amount]'', calc_datatype = ''unknown'',
            calc_category = ''unknown'', calc_complexity_score = float_zero\<rparr>"
         and n = "\<lparr>conn_type = ''unknown'', conn_dialect = None, conn_database = None,
            conn_schema = None, conn_table = None, conn_raw_sql = None\<rparr>"]
    metric_outside
  by (simp add: order_id_field amount_calculation default_connection)


section \<open>The complexity score of a calculation\<close>

lemma float_values:
  "is_finite float_zero" "float_value float_zero = 0" "in_unit_interval float_zero"
  "is_finite float_two" "float_value float_two = 2" "\<not> in_unit_interval float_two"
  "is_finite float_minus_one" "float_value float_minus_one = - 1"
  "\<not> in_unit_interval float_minus_one"
  by (simp_all add: in_unit_interval_def is_finite_def float_value_def float_zero_def
      float_two_def float_minus_one_def)

text \<open>
  C3 as stated fails. The class declares \<^verbatim>\<open>complexity_score: float = 0.0\<close> with no
  bound, and no validator: the calculation whose expression is the bare column
  \<^verbatim>\<open>[amount]\<close> is constructed with score \<^verbatim>\<open>2.0\<close> (above 1, and not 0), and with
  score \<^verbatim>\<open>-1.0\<close>.
\<close>

theorem complexity_score_counterexample:
  "(case TableauCalculation_new (amount_args (Given float_two)) of
      Inl e \<Rightarrow> False
    | Inr c \<Rightarrow> calc_expression c = ''[amount]'' \<and>
               float_value (calc_complexity_score c) = 2 \<and>
               \<not> in_unit_interval (calc_complexity_score c) \<and>
               float_value (calc_complexity_score c) \<noteq> 0) \<and>
   (case TableauCalculation_new (amount_args (Given float_minus_one)) of
      Inl e \<Rightarrow> False
    | Inr c \<Rightarrow> calc_expression c = ''[amount]'' \<and>
               float_value (calc_complexity_score c) < 0 \<and>
               \<not> in_unit_interval (calc_complexity_score c))"
  by (simp add: amount_calculation float_values)

text \<open>
  C3, amended. A TableauCalculation constructed without a \<^verbatim>\<open>complexity_score\<close> has
  score \<^verbatim>\<open>0.0\<close>, whatever its expression; one constructed with a float for it holds
  that float, whatever it is (None is refused): changing the score argument of a call
  that returns, to any float or to nothing, gives a call that returns. So the score of
  a constructed calculation lies in [0,1] exactly when the argument was left out or
  was a float within [0,1].
\<close>

theorem complexity_score_as_given:
  assumes "TableauCalculation_new a = Inr c"
  shows "(arg_calc_complexity_score a = Absent \<longrightarrow> calc_complexity_score c = float_zero) \<and>
         (\<forall>x. arg_calc_complexity_score a = Given x \<longrightarrow> calc_complexity_score c = x) \<and>
         arg_calc_complexity_score a \<noteq> Null \<and>
         (in_unit_interval (calc_complexity_score c) \<longleftrightarrow>
            arg_calc_complexity_score a = Absent \<or>
            (\<exists>x. arg_calc_complexity_score a = Given x \<and> in_unit_interval x)) \<and>
         TableauCalculation_new (a\<lparr>arg_calc_complexity_score := Absent\<rparr>) =
           Inr (c\<lparr>calc_complexity_score := float_zero\<rparr>) \<and>
         TableauCalculation_new (a\<lparr>arg_calc_complexity_score := Given y\<rparr>) =
           Inr (c\<lparr>calc_complexity_score := y\<rparr>) \<and>
         float_value float_zero = 0 \<and> in_unit_interval float_zero"
proof -
  from assms have
    "defaulted float_zero (arg_calc_complexity_score a) = Some (calc_complexity_score c)"
    by (simp add: TableauCalculation_new_Inr)
  then have
    "(arg_calc_complexity_score a = Absent \<longrightarrow> calc_complexity_score c = float_zero) \<and>
     (\<forall>x. arg_calc_complexity_score a = Given x \<longrightarrow> calc_complexity_score c = x) \<and>
     arg_calc_complexity_score a \<noteq> Null \<and>
     (in_unit_interval (calc_complexity_score c) \<longleftrightarrow>
        arg_calc_complexity_score a = Absent \<or>
        (\<exists>x. arg_calc_complexity_score a = Given x \<and> in_unit_interval x))"
    by (cases "arg_calc_complexity_score a") (auto simp: defaulted_def float_values)
  moreover from assms have
    "TableauCalculation_new (a\<lparr>arg_calc_complexity_score := Absent\<rparr>) =
       Inr (c\<lparr>calc_complexity_score := float_zero\<rparr>)"
    by (simp add: TableauCalculation_new_Inr defaulted_def)
  moreover from assms have
    "TableauCalculation_new (a\<lparr>arg_calc_complexity_score := Given y\<rparr>) =
       Inr (c\<lparr>calc_complexity_score := y\<rparr>)"
    by (simp add: TableauCalculation_new_Inr defaulted_def)
  ultimately show ?thesis
    by (simp add: float_values)
qed

theorem complexity_score_as_given_witness:
  "arg_calc_complexity_score (amount_args Absent) = Absent \<and>
   (case TableauCalculation_new (amount_args Absent) of
      Inl e \<Rightarrow> False
    | Inr c \<Rightarrow> calc_complexity_score c = float_zero \<and>
               float_value (calc_complexity_score c) = 0 \<and>
               in_unit_interval (calc_complexity_score c)) \<and>
   (case TableauCalculation_new
           (amount_args Absent\<lparr>arg_calc_complexity_score := Given float_two\<rparr>) of
      Inl e \<Rightarrow> False
    | Inr c \<Rightarrow> calc_complexity_score c = float_two)"
proof -
  have "arg_calc_complexity_score (amount_args Absent) = Absent"
    by (simp add: amount_args_def TableauCalculation_args0_def)
  with complexity_score_as_given [OF amount_calculation(2), where y = float_two]
  show ?thesis
    by (simp add: amount_calculation float_values)
qed

section \<open>The raw SQL of a connection\<close>

lemma custom_sql_connection:
  "TableauConnection_new (TableauConnection_args0\<lparr>arg_conn_type := Given ''custom_sql''\<rparr>) =
     Inr \<lparr>conn_type = ''custom_sql'', conn_dialect = None, conn_database = None,
          conn_schema = None, conn_table = None, conn_raw_sql = None\<rparr>"
  "TableauConnection_new
     (TableauConnection_args0\<lparr>arg_conn_type := Given ''custom_sql'', arg_conn_raw_sql := Null\<rparr>) =
     Inr \<lparr>conn_type = ''custom_sql'', conn_dialect = None, conn_database = None,
          conn_schema = None, conn_table = None, conn_raw_sql = None\<rparr>"
  "TableauConnection_new
     (TableauConnection_args0\<lparr>arg_conn_type := Given ''custom_sql'', arg_conn_raw_sql := Given q\<rparr>) =
     Inr \<lparr>conn_type = ''custom_sql'', conn_dialect = None, conn_database = None,
          conn_schema = None, conn_table = None, conn_raw_sql = Some q\<rparr>"
  by (simp_all add: TableauConnection_new_def TableauConnection_args0_def validated_def
      optional_def literal_def connection_type_values_def)

text \<open>
  C4 as stated fails. \<^verbatim>\<open>raw_sql: Optional[str] = None\<close> is checked on its own: a
  connection of type \<^verbatim>\<open>"custom_sql"\<close> is constructed with \<^verbatim>\<open>raw_sql\<close> left out, given
  as None, and given as the empty string.
\<close>

theorem custom_sql_counterexample:
  "(case TableauConnection_new (TableauConnection_args0\<lparr>arg_conn_type := Given ''custom_sql''\<rparr>) of
      Inl e \<Rightarrow> False
    | Inr c \<Rightarrow> conn_type c = ''custom_sql'' \<and> conn_raw_sql c = None) \<and>
   (case TableauConnection_new
           (TableauConnection_args0
              \<lparr>arg_conn_type := Given ''custom_sql'', arg_conn_raw_sql := Null\<rparr>) of
      Inl e \<Rightarrow> False
    | Inr c \<Rightarrow> conn_type c = ''custom_sql'' \<and> conn_raw_sql c = None) \<and>
   (case TableauConnection_new
           (TableauConnection_args0
              \<lparr>arg_conn_type := Given ''custom_sql'', arg_conn_raw_sql := Given ''''\<rparr>) of
      Inl e \<Rightarrow> False
    | Inr c \<Rightarrow> conn_type c = ''custom_sql'' \<and> conn_raw_sql c = Some '''')"
  by (simp add: custom_sql_connection)

text \<open>
  C4, amended. For every TableauConnection accepted by construction, the type is one of
  the four declared values and \<^verbatim>\<open>raw_sql\<close> is what was given (None when left out or
  given as None); whether a connection is accepted does not depend on \<^verbatim>\<open>raw_sql\<close>: the
  same call with any other \<^verbatim>\<open>raw_sql\<close> argument \<open>r\<close> returns the same connection with
  that \<^verbatim>\<open>raw_sql\<close>, also when the type is \<^verbatim>\<open>"custom_sql"\<close>.
\<close>

theorem raw_sql_not_checked:
  assumes "TableauConnection_new a = Inr c"
  shows "conn_type c \<in> set connection_type_values \<and>
         conn_raw_sql c = (case arg_conn_raw_sql a of Given q \<Rightarrow> Some q | _ \<Rightarrow> None) \<and>
         TableauConnection_new (a\<lparr>arg_conn_raw_sql := r\<rparr>) =
           Inr (c\<lparr>conn_raw_sql := (case r of Given q \<Rightarrow> Some q | _ \<Rightarrow> None)\<rparr>)"
proof -
  from assms have
    t: "literal connection_type_values ''unknown'' (arg_conn_type a) = Some (conn_type c)"
    and q: "optional (arg_conn_raw_sql a) = Some (conn_raw_sql c)"
    by (simp_all add: TableauConnection_new_Inr)
  from t have "conn_type c \<in> set connection_type_values"
    by (rule literal_in) (rule unknown_values)
  moreover from q have
    "conn_raw_sql c = (case arg_conn_raw_sql a of Given q \<Rightarrow> Some q | _ \<Rightarrow> None)"
    by (simp add: optional_Some)
  moreover from assms have
    "TableauConnection_new (a\<lparr>arg_conn_raw_sql := r\<rparr>) =
       Inr (c\<lparr>conn_raw_sql := (case r of Given q \<Rightarrow> Some q | _ \<Rightarrow> None)\<rparr>)"
    by (simp add: TableauConnection_new_Inr optional_Some)
  ultimately show ?thesis by simp
qed

theorem raw_sql_not_checked_witness:
  "TableauConnection_new
     (TableauConnection_args0
        \<lparr>arg_conn_type := Given ''custom_sql'', arg_conn_raw_sql := Given ''SELECT 1''\<rparr>) =
     Inr \<lparr>conn_type = ''custom_sql'', conn_dialect = None, conn_database = None,
          conn_schema = None, conn_table = None, conn_raw_sql = Some ''SELECT 1''\<rparr> \<and>
   TableauConnection_new
     (TableauConnection_args0
        \<lparr>arg_conn_type := Given ''custom_sql'', arg_conn_raw_sql := Given ''SELECT 1'',
         arg_conn_raw_sql := Absent\<rparr>) =
     Inr \<lparr>conn_type = ''custom_sql'', conn_dialect = None, conn_database = None,
          conn_schema = None, conn_table = None, conn_raw_sql = None\<rparr>"
  using raw_sql_not_checked [OF custom_sql_connection(3), of "''SELECT 1''" Absent]
  by (simp add: custom_sql_connection)

section \<open>Defaults of a join\<close>

lemma orders_join:
  "TableauJoin_new (orders_join_args (Given b)) =
     Inr \<lparr>join_id = ''j1'', join_left_table_id = ''orders'',
          join_right_table_id = ''line_items'', join_type = ''unknown'',
          join_condition = ''[orders.id] = [line_items.order_id]'',
          join_needs_manual_review = b\<rparr>"
  "TableauJoin_new (orders_join_args Absent) =
     Inr \<lparr>join_id = ''j1'', join_left_table_id = ''orders'',
          join_right_table_id = ''line_items'', join_type = ''unknown'',
          join_condition = ''[orders.id] = [line_items.order_id]'',
          join_needs_manual_review = False\<rparr>"
  by (simp_all add: TableauJoin_new_def orders_join_args_def TableauJoin_args0_def
      validated_def required_def defaulted_def literal_def)

lemma orders_tables:
  "TableauTable_new
     (TableauTable_args0\<lparr>arg_tbl_id := Given i, arg_tbl_name := Given n\<rparr>) =
     Inr \<lparr>tbl_id = i, tbl_name = n, tbl_database = None, tbl_schema = None,
          tbl_table = None, tbl_is_primary = False\<rparr>"
  by (simp add: TableauTable_new_def TableauTable_args0_def validated_def required_def
      optional_def defaulted_def)

lemma calculated_field:
  "TableauField_new
     (TableauField_args0
        \<lparr>arg_fld_id := Given i, arg_fld_name := Given n,
         arg_fld_source := Given ''calculation'', arg_fld_calculation_id := Given c\<rparr>) =
     Inr \<lparr>fld_id = i, fld_name = n, fld_caption = None, fld_table_id = None,
          fld_role = ''unknown'', fld_datatype = ''unknown'', fld_aggregation = None,
          fld_source = ''calculation'', fld_column_name = None,
          fld_calculation_id = Some c, fld_is_hidden = False, fld_tags = []\<rparr>"
  by (simp add: TableauField_new_def TableauField_args0_def validated_def required_def
      optional_def defaulted_def literal_def source_values_def)

lemma column_field:
  "TableauField_new
     (TableauField_args0
        \<lparr>arg_fld_id := Given i, arg_fld_name := Given n, arg_fld_table_id := Given t,
         arg_fld_source := Given ''column'', arg_fld_column_name := Given c\<rparr>) =
     Inr \<lparr>fld_id = i, fld_name = n, fld_caption = None, fld_table_id = Some t,
          fld_role = ''unknown'', fld_datatype = ''unknown'', fld_aggregation = None,
          fld_source = ''column'', fld_column_name = Some c,
          fld_calculation_id = None, fld_is_hidden = False, fld_tags = []\<rparr>"
  by (simp add: TableauField_new_def TableauField_args0_def validated_def required_def
      optional_def defaulted_def literal_def source_values_def)

lemma orders_datasource:
  "TableauDatasource_new (orders_datasource_args flag) =
     (case TableauJoin_new (orders_join_args flag) of
        Inl e \<Rightarrow> Inl ValidationError
      | Inr j \<Rightarrow>
          Inr \<lparr>ds_id = ''ds1'', ds_name = ''Orders'',
               ds_connection =
                 \<lparr>conn_type = ''unknown'', conn_dialect = None, conn_database = None,
                  conn_schema = None, conn_table = None, conn_raw_sql = None\<rparr>,
               ds_tables =
                 [\<lparr>tbl_id = ''orders'', tbl_name = ''orders'', tbl_database = None,
                   tbl_schema = None, tbl_table = None, tbl_is_primary = False\<rparr>,
                  \<lparr>tbl_id = ''line_items'', tbl_name = ''line_items'', tbl_database = None,
                   tbl_schema = None, tbl_table = None, tbl_is_primary = False\<rparr>],
               ds_joins = [j],
               ds_fields =
                 [\<lparr>fld_id = ''f1'', fld_name = ''Profit'', fld_caption = None,
                   fld_table_id = None, fld_role = ''unknown'', fld_datatype = ''unknown'',
                   fld_aggregation = None, fld_source = ''calculation'',
                   fld_column_name = None, fld_calculation_id = Some ''c1'',
                   fld_is_hidden = False, fld_tags = []\<rparr>,
                  \<lparr>fld_id = ''f2'', fld_name = ''id'', fld_caption = None,
                   fld_table_id = Some ''orders'', fld_role = ''unknown'',
                   fld_datatype = ''unknown'', fld_aggregation = None,
                   fld_source = ''column'', fld_column_name = Some ''id'',
                   fld_calculation_id = None, fld_is_hidden = False, fld_tags = []\<rparr>,
                  \<lparr>fld_id = ''f3'', fld_name = ''order_id'', fld_caption = None,
                   fld_table_id = Some ''line_items'', fld_role = ''unknown'',
                   fld_datatype = ''unknown'', fld_aggregation = None,
                   fld_source = ''column'', fld_column_name = Some ''order_id'',
                   fld_calculation_id = None, fld_is_hidden = False, fld_tags = []\<rparr>]\<rparr>)"
  by (simp add: TableauDatasource_new_def orders_datasource_args_def
      TableauDatasource_args0_def validated_def required_def required_model_def
      model_list_def nested_def default_connection orders_tables calculated_field
      column_field split: sum.splits)

text \<open>
  C7 as stated fails in its last part. The class stores the flag it is given and does
  not read the condition: in a datasource with the tables \<^verbatim>\<open>orders\<close> and
  \<^verbatim>\<open>line_items\<close> and their columns \<^verbatim>\<open>id\<close> and \<^verbatim>\<open>order_id\<close>, the join between
  them whose condition is the single equality
  \<^verbatim>\<open>[orders.id] = [line_items.order_id]\<close> is constructed with
  \<^verbatim>\<open>needs_manual_review\<close> true.
\<close>

theorem join_review_counterexample:
  "case TableauDatasource_new (orders_datasource_args (Given True)) of
     Inl e \<Rightarrow> False
   | Inr d \<Rightarrow>
       map tbl_id (ds_tables d) = [''orders'', ''line_items''] \<and>
       map (\<lambda>f. (fld_table_id f, fld_column_name f)) (ds_fields d) =
         [(None, None), (Some ''orders'', Some ''id''),
          (Some ''line_items'', Some ''order_id'')] \<and>
       map (\<lambda>j. (join_left_table_id j, join_right_table_id j, join_condition j,
                 join_needs_manual_review j)) (ds_joins d) =
         [(''orders'', ''line_items'', ''[orders.id] = [line_items.order_id]'', True)]"
  by (simp add: orders_datasource orders_join)

text \<open>
  C7, amended. A TableauJoin constructed without a \<^verbatim>\<open>join_type\<close> has join type
  \<^verbatim>\<open>"unknown"\<close>, and one constructed without a \<^verbatim>\<open>needs_manual_review\<close> flag has the
  flag false, whatever its condition (so also when the condition is a single equality
  between two existing table columns); one constructed with the flag holds the flag as
  given. The condition is stored as given.
\<close>

theorem TableauJoin_defaults:
  assumes "TableauJoin_new a = Inr j"
  shows "(arg_join_type a = Absent \<longrightarrow> join_type j = ''unknown'') \<and>
         (arg_join_needs_manual_review a = Absent \<longrightarrow> \<not> join_needs_manual_review j) \<and>
         (\<forall>b. arg_join_needs_manual_review a = Given b \<longrightarrow> join_needs_manual_review j = b) \<and>
         arg_join_condition a = Given (join_condition j)"
proof -
  from assms have
    t: "literal join_type_values ''unknown'' (arg_join_type a) = Some (join_type j)" and
    r: "defaulted False (arg_join_needs_manual_review a) = Some (join_needs_manual_review j)"
    and c: "required (arg_join_condition a) = Some (join_condition j)"
    by (simp_all add: TableauJoin_new_Inr)
  from t have "arg_join_type a = Absent \<longrightarrow> join_type j = ''unknown''"
    by (auto simp: literal_Some)
  moreover from r have
    "(arg_join_needs_manual_review a = Absent \<longrightarrow> \<not> join_needs_manual_review j) \<and>
     (\<forall>b. arg_join_needs_manual_review a = Given b \<longrightarrow> join_needs_manual_review j = b)"
    by (auto simp: defaulted_Some)
  moreover from c have "arg_join_condition a = Given (join_condition j)"
    by (simp add: required_Some)
  ultimately show ?thesis by simp
qed

theorem TableauJoin_defaults_witness:
  "arg_join_type (orders_join_args Absent) = Absent \<and>
   arg_join_needs_manual_review (orders_join_args Absent) = Absent \<and>
   (case TableauJoin_new (orders_join_args Absent) of
      Inl e \<Rightarrow> False
    | Inr j \<Rightarrow> join_type j = ''unknown'' \<and> \<not> join_needs_manual_review j \<and>
               join_condition j = ''[orders.id] = [line_items.order_id]'')"
proof -
  have "arg_join_type (orders_join_args Absent) = Absent"
    and "arg_join_needs_manual_review (orders_join_args Absent) = Absent"
    by (simp_all add: orders_join_args_def TableauJoin_args0_def)
  with TableauJoin_defaults [OF orders_join(2)] show ?thesis
    by (simp add: orders_join)
qed


section \<open>References\<close>

lemma plain_workbook:
  "TableauWorkbook_new
     (TableauWorkbook_args0\<lparr>arg_wb_id := Given i, arg_wb_name := Given n\<rparr>) =
     Inr \<lparr>wb_id = i, wb_name = n, wb_description = None\<rparr>"
  by (simp add: TableauWorkbook_new_def TableauWorkbook_args0_def validated_def required_def
      optional_def)

lemma plain_join:
  "TableauJoin_new
     (TableauJoin_args0
        \<lparr>arg_join_id := Given i, arg_join_left_table_id := Given l,
         arg_join_right_table_id := Given r, arg_join_condition := Given c\<rparr>) =
     Inr \<lparr>join_id = i, join_left_table_id = l, join_right_table_id = r,
          join_type = ''unknown'', join_condition = c, join_needs_manual_review = False\<rparr>"
  by (simp add: TableauJoin_new_def TableauJoin_args0_def validated_def required_def
      defaulted_def literal_def)

lemma plain_filter:
  "TableauSheetFilter_new
     (TableauSheetFilter_args0\<lparr>arg_flt_field_id := Given f, arg_flt_expression := Given e\<rparr>) =
     Inr \<lparr>flt_field_id = f, flt_expression = e, flt_applied_to = ''unknown''\<rparr>"
  by (simp add: TableauSheetFilter_new_def TableauSheetFilter_args0_def validated_def
      required_def literal_def)

lemma plain_sheet:
  "TableauSheet_new
     (TableauSheet_args0
        \<lparr>arg_sh_id := Given i, arg_sh_name := Given n, arg_sh_datasource_id := Given d,
         arg_sh_filters := Given [Dict (TableauSheetFilter_args0
           \<lparr>arg_flt_field_id := Given f, arg_flt_expression := Given e\<rparr>)]\<rparr>) =
     Inr \<lparr>sh_id = i, sh_name = n, sh_datasource_id = d, sh_used_field_ids = [],
          sh_filters = [\<lparr>flt_field_id = f, flt_expression = e, flt_applied_to = ''unknown''\<rparr>],
          sh_visualization = None, sh_description = None\<rparr>"
  by (simp add: TableauSheet_new_def TableauSheet_args0_def validated_def required_def
      optional_def defaulted_def model_list_def optional_model_def nested_def plain_filter)

lemma orders_sheet:
  "TableauSheet_new
     (TableauSheet_args0
        \<lparr>arg_sh_id := Given i, arg_sh_name := Given n, arg_sh_datasource_id := Given d,
         arg_sh_used_field_ids := Given us,
         arg_sh_filters := Given [Dict (TableauSheetFilter_args0
           \<lparr>arg_flt_field_id := Given f, arg_flt_expression := Given e\<rparr>)],
         arg_sh_visualization := Given (Dict (TableauSheetVisualization_args0
           \<lparr>arg_viz_chart_type := Given ''bar'',
            arg_viz_primary_dimension_id := Given p,
            arg_viz_primary_measure_ids := Given ms\<rparr>))\<rparr>) =
     Inr \<lparr>sh_id = i, sh_name = n, sh_datasource_id = d, sh_used_field_ids = us,
          sh_filters = [\<lparr>flt_field_id = f, flt_expression = e, flt_applied_to = ''unknown''\<rparr>],
          sh_visualization =
            Some \<lparr>viz_chart_type = ''bar'', viz_primary_dimension_id = Some p,
                  viz_primary_measure_ids = ms, viz_split_by_dimension_ids = [],
                  viz_sort_order = None, viz_granularity = None\<rparr>,
          sh_description = None\<rparr>"
proof -
  have "TableauSheetVisualization_new
          (TableauSheetVisualization_args0
             \<lparr>arg_viz_chart_type := Given ''bar'',
              arg_viz_primary_dimension_id := Given p,
              arg_viz_primary_measure_ids := Given ms\<rparr>) =
        Inr \<lparr>viz_chart_type = ''bar'', viz_primary_dimension_id = Some p,
             viz_primary_measure_ids = ms, viz_split_by_dimension_ids = [],
             viz_sort_order = None, viz_granularity = None\<rparr>"
    by (simp add: TableauSheetVisualization_new_def TableauSheetVisualization_args0_def
        validated_def optional_def defaulted_def literal_def chart_type_values_def)
  then show ?thesis
    by (simp add: TableauSheet_new_def TableauSheet_args0_def validated_def required_def
        optional_def defaulted_def model_list_def optional_model_def nested_def plain_filter)
qed

lemma plain_calculation:
  "TableauCalculation_new
     (TableauCalculation_args0
        \<lparr>arg_calc_id := Given i, arg_calc_name := Given n,
         arg_calc_datasource_id := Given d, arg_calc_expression := Given e\<rparr>) =
     Inr \<lparr>calc_id = i, calc_name = n, calc_datasource_id = d, calc_expression = e,
          calc_datatype = ''unknown'', calc_category = ''unknown'',
          calc_complexity_score = float_zero\<rparr>"
  by (simp add: TableauCalculation_new_def TableauCalculation_args0_def validated_def
      required_def defaulted_def literal_def)

lemma dangling_datasource:
  "TableauDatasource_new
     (TableauDatasource_args0
        \<lparr>arg_ds_id := Given ''ds1'', arg_ds_name := Given ''Orders'',
         arg_ds_connection := Given (Dict TableauConnection_args0),
         arg_ds_joins := Given [Dict (TableauJoin_args0
           \<lparr>arg_join_id := Given ''j1'', arg_join_left_table_id := Given ''t1'',
            arg_join_right_table_id := Given ''t2'',
            arg_join_condition := Given ''[a] = [b]''\<rparr>)],
         arg_ds_fields := Given [Dict (TableauField_args0
           \<lparr>arg_fld_id := Given ''f1'', arg_fld_name := Given ''Profit'',
            arg_fld_source := Given ''calculation'',
            arg_fld_calculation_id := Given ''c9''\<rparr>)]\<rparr>) =
     Inr (hd (datasources dangling_model))"
  by (simp add: TableauDatasource_new_def TableauDatasource_args0_def validated_def
      required_def required_model_def model_list_def nested_def default_connection
      plain_join calculated_field dangling_model_def)

lemma dangling_accepted: "TableauSemanticModel_new dangling_args = Inr dangling_model"
  by (simp add: TableauSemanticModel_new_def dangling_args_def TableauSemanticModel_args0_def
      validated_def defaulted_def required_model_def model_list_def nested_def
      plain_workbook dangling_datasource plain_sheet)
    (simp add: dangling_model_def)

lemma orders_accepted: "TableauSemanticModel_new orders_args = Inr orders_model"
  by (simp add: TableauSemanticModel_new_def orders_args_def TableauSemanticModel_args0_def
      validated_def defaulted_def required_model_def model_list_def nested_def
      plain_workbook orders_datasource orders_join orders_sheet plain_calculation)
    (simp add: orders_model_def)

text \<open>
  C1 as stated fails. Construction checks each field against its own declaration and
  looks no id up: the model below is accepted, and its field of source
  \<^verbatim>\<open>"calculation"\<close> names a calculation that does not exist, its join names two
  tables that do not exist, and its sheet filter names a field that does not exist.
\<close>

theorem dangling_references_counterexample:
  "case TableauSemanticModel_new dangling_args of
     Inl e \<Rightarrow> False
   | Inr m \<Rightarrow> \<not> field_calculations_resolve m \<and> \<not> join_tables_resolve m \<and>
              \<not> sheet_fields_resolve m \<and> \<not> references_resolve m"
  by (simp add: dangling_accepted)
    (simp add: dangling_model_def references_resolve_def field_calculations_resolve_def
      join_tables_resolve_def sheet_fields_resolve_def datasource_field_ids_def)

text \<open>
  A nested model given as an instance is held as it is, whatever its fields hold: a
  field built or changed without validation keeps a role outside the enumeration.
\<close>

lemma instance_taken_as_is:
  "TableauDatasource_new
     (TableauDatasource_args0
        \<lparr>arg_ds_id := Given i, arg_ds_name := Given n,
         arg_ds_connection := Given (Instance c),
         arg_ds_fields := Given [Instance f]\<rparr>) =
     Inr \<lparr>ds_id = i, ds_name = n, ds_connection = c, ds_tables = [], ds_joins = [],
          ds_fields = [f]\<rparr>"
proof -
  have "nested TableauConnection_new (Instance c) = Some c"
    and "nested TableauField_new (Instance f) = Some f"
    by (simp_all add: nested_def)
  then show ?thesis
    by (simp add: TableauDatasource_new_def TableauDatasource_args0_def validated_def
        required_def required_model_def model_list_def)
qed

text \<open>
  C1, amended. For every value of type TableauSemanticModel accepted by
  construction, the workbook is present, and the value is the constructor's arguments
  as given, with the declared defaults where an argument was left out: every id in it
  (a field's \<^verbatim>\<open>calculation_id\<close> and \<^verbatim>\<open>table_id\<close>, a join's \<^verbatim>\<open>left_table_id\<close> and
  \<^verbatim>\<open>right_table_id\<close>, a filter's \<^verbatim>\<open>field_id\<close>, a visualization's
  \<^verbatim>\<open>primary_dimension_id\<close>, \<^verbatim>\<open>primary_measure_ids\<close> and
  \<^verbatim>\<open>split_by_dimension_ids\<close>, and the ids of the entities they would name) is the one
  the call gave, unchanged, unmarked and not looked up. So the references of an
  accepted value resolve exactly when those of the arguments do: construction does not
  establish it.
\<close>

theorem accepted_model_as_given:
  assumes "TableauSemanticModel_new a = Inr m"
  shows "m = TableauSemanticModel_as_given a \<and> workbook m \<noteq> None \<and>
         (references_resolve m \<longleftrightarrow> references_resolve (TableauSemanticModel_as_given a))"
proof -
  from assms have "TableauSemanticModel_as_given a = m"
    by (rule TableauSemanticModel_new_as_given)
  moreover from assms have "workbook m \<noteq> None"
    by (auto simp: TableauSemanticModel_new_Inr)
  ultimately show ?thesis by simp
qed

lemma orders_as_given: "TableauSemanticModel_as_given orders_args = orders_model"
  using TableauSemanticModel_new_as_given [OF orders_accepted] .

lemma dangling_as_given: "TableauSemanticModel_as_given dangling_args = dangling_model"
  using TableauSemanticModel_new_as_given [OF dangling_accepted] .

theorem accepted_model_as_given_witness:
  "TableauSemanticModel_new orders_args = Inr orders_model \<and>
   orders_model = TableauSemanticModel_as_given orders_args \<and>
   workbook orders_model \<noteq> None \<and>
   references_resolve orders_model \<and>
   map (\<lambda>d. map (\<lambda>f. (fld_id f, fld_calculation_id f)) (ds_fields d)) (datasources orders_model)
     = [[(''f1'', Some ''c1''), (''f2'', None), (''f3'', None)]] \<and>
   map (\<lambda>d. map (\<lambda>j. (join_left_table_id j, join_right_table_id j)) (ds_joins d))
     (datasources orders_model) = [[(''orders'', ''line_items'')]] \<and>
   map (\<lambda>s. map flt_field_id (sh_filters s)) (sheets orders_model) = [[''f1'']] \<and>
   map (\<lambda>s. map_option (\<lambda>v. (viz_primary_dimension_id v, viz_primary_measure_ids v,
                              viz_split_by_dimension_ids v)) (sh_visualization s))
     (sheets orders_model) = [Some (Some ''f2'', [''f1''], [])]"
proof -
  note t = accepted_model_as_given [OF orders_accepted]
  have r: "references_resolve orders_model"
    by (simp add: orders_model_def references_resolve_def field_calculations_resolve_def
        join_tables_resolve_def sheet_fields_resolve_def datasource_field_ids_def)
  have f: "map (\<lambda>d. map (\<lambda>f. (fld_id f, fld_calculation_id f)) (ds_fields d))
       (datasources orders_model) = [[(''f1'', Some ''c1''), (''f2'', None), (''f3'', None)]]"
    by (simp add: orders_model_def)
  have j: "map (\<lambda>d. map (\<lambda>j. (join_left_table_id j, join_right_table_id j)) (ds_joins d))
       (datasources orders_model) = [[(''orders'', ''line_items'')]]"
    by (simp add: orders_model_def)
  have s: "map (\<lambda>s. map flt_field_id (sh_filters s)) (sheets orders_model) = [[''f1'']]"
    by (simp add: orders_model_def)
  have v: "map (\<lambda>s. map_option (\<lambda>v. (viz_primary_dimension_id v, viz_primary_measure_ids v,
                              viz_split_by_dimension_ids v)) (sh_visualization s))
     (sheets orders_model) = [Some (Some ''f2'', [''f1''], [])]"
    by (simp add: orders_model_def)
  from t have e: "orders_model = TableauSemanticModel_as_given orders_args"
    by (rule conjunct1)
  from t have w: "workbook orders_model \<noteq> None"
    by (rule conjunct2 [THEN conjunct1])
  from orders_accepted e w r f j s v show ?thesis
    by (intro conjI)
qed

section \<open>The parser service\<close>

lemma placeholder_workbook:
  "TableauWorkbook_new
     \<lparr>arg_wb_id = Given ''unknown'', arg_wb_name = Given ''Unknown Workbook'',
      arg_wb_description = Null\<rparr> =
     Inr \<lparr>wb_id = ''unknown'', wb_name = ''Unknown Workbook'', wb_description = None\<rparr>"
  by (simp add: TableauWorkbook_new_def validated_def required_def optional_def)

text \<open>What the service returns when both adapter calls return.\<close>

lemma parse_returns:
  assumes "P b s = (Inr raw, t)" and "R raw t = (Inr m, u)"
  shows "parse_twb_to_semantic_model P R b s =
           (Inr (if workbook m = None
                 then m\<lparr>workbook := Some \<lparr>wb_id = ''unknown'', wb_name = ''Unknown Workbook'',
                                          wb_description = None\<rparr>\<rparr>
                 else m), u)"
  using assms by (simp add: parse_twb_to_semantic_model_def placeholder_workbook)

text \<open>What it returns or raises is decided by what the adapter calls return or raise.\<close>

lemma parse_result:
  "fst (parse_twb_to_semantic_model P R b s) =
     (case fst (P b s) of
        Inl e \<Rightarrow> Inl e
      | Inr raw \<Rightarrow>
          (case fst (R raw (snd (P b s))) of
             Inl e \<Rightarrow> Inl e
           | Inr m \<Rightarrow>
               Inr (if workbook m = None
                    then m\<lparr>workbook := Some \<lparr>wb_id = ''unknown'',
                           wb_name = ''Unknown Workbook'', wb_description = None\<rparr>\<rparr>
                    else m)))"
  by (auto simp: parse_twb_to_semantic_model_def placeholder_workbook
      split: prod.splits sum.splits)



text \<open>
  C10. In every TableauSemanticModel accepted by construction the workbook is a
  TableauWorkbook, never None: the argument was given (neither left out nor None) and
  the workbook is what the workbook's constructor returned for it, or the instance
  given. So when the adapter
  returns such a model, the test \<^verbatim>\<open>semantic_model.workbook is None\<close> is false and the
  service returns the model unchanged: the placeholder branch is not taken.
\<close>

theorem validated_workbook_present:
  assumes "TableauSemanticModel_new a = Inr m"
    and "P b s = (Inr raw, t)" and "R raw t = (Inr m, u)"
  shows "workbook m \<noteq> None \<and>
         arg_workbook a \<noteq> Absent \<and> arg_workbook a \<noteq> Null \<and>
         (\<exists>x w. arg_workbook a = Given x \<and> nested TableauWorkbook_new x = Some w \<and>
                workbook m = Some w) \<and>
         parse_twb_to_semantic_model P R b s = (Inr m, u)"
proof -
  from assms(1) obtain x w where
    w: "arg_workbook a = Given x" "nested TableauWorkbook_new x = Some w" "workbook m = Some w"
    by (auto simp: TableauSemanticModel_new_Inr required_model_Some)
  from w(3) assms(2,3)
    parse_returns [where P = P and R = R and b = b and s = s and raw = raw and t = t
      and m = m and u = u]
  have "parse_twb_to_semantic_model P R b s = (Inr m, u)"
    by simp
  with w show ?thesis by auto
qed

theorem validated_workbook_present_witness:
  "TableauSemanticModel_new orders_args = Inr orders_model \<and>
   workbook orders_model =
     Some \<lparr>wb_id = ''wb1'', wb_name = ''Sales'', wb_description = None\<rparr> \<and>
   parse_twb_to_semantic_model counting_reader (constant_mapper orders_model) ''<workbook/>'' 0 =
     (Inr orders_model, 1)"
proof -
  have p: "counting_reader ''<workbook/>'' 0 = (Inr ''<workbook/>'', 1)"
    by (simp add: counting_reader_def)
  have r: "constant_mapper orders_model ''<workbook/>'' 1 = (Inr orders_model, 1)"
    by (simp add: constant_mapper_def)
  have "workbook orders_model =
          Some \<lparr>wb_id = ''wb1'', wb_name = ''Sales'', wb_description = None\<rparr>"
    by (simp add: orders_model_def)
  with validated_workbook_present
      [where a = orders_args and m = orders_model and P = counting_reader
         and R = "constant_mapper orders_model" and b = "''<workbook/>''" and s = 0
         and raw = "''<workbook/>''" and t = 1 and u = 1] orders_accepted p r
  show ?thesis by simp
qed

text \<open>
  C9. With adapters as the specification describes them (what a call returns or raises
  is decided by its argument alone), the service is deterministic: on the same bytes it
  returns the same model, or raises the same error, from any two ambient states; in
  particular a second run, from the state the first run left, returns what the first
  returned. The service reads nothing but what the adapters return.
\<close>

theorem parse_deterministic:
  assumes "state_independent P" and "state_independent R"
  shows "fst (parse_twb_to_semantic_model P R b s) =
           fst (parse_twb_to_semantic_model P R b s') \<and>
         fst (parse_twb_to_semantic_model P R b (snd (parse_twb_to_semantic_model P R b s))) =
           fst (parse_twb_to_semantic_model P R b s)"
proof -
  have run: "fst (parse_twb_to_semantic_model P R b t) =
               fst (parse_twb_to_semantic_model P R b t')" for t t'
  proof -
    from assms(1) have p: "fst (P b t) = fst (P b t')"
      by (simp add: state_independent_def)
    from assms(2) have
      r: "fst (R raw (snd (P b t))) = fst (R raw (snd (P b t')))" for raw
      by (simp add: state_independent_def)
    show ?thesis
      by (simp add: parse_result p r cong: sum.case_cong)
  qed
  from run [of s s'] run [of "snd (parse_twb_to_semantic_model P R b s)" s]
  show ?thesis by simp
qed

theorem parse_deterministic_witness:
  "state_independent counting_reader \<and> state_independent (constant_mapper bare_model) \<and>
   fst (parse_twb_to_semantic_model counting_reader (constant_mapper bare_model)
          ''<workbook/>'' 0) =
     fst (parse_twb_to_semantic_model counting_reader (constant_mapper bare_model)
          ''<workbook/>'' 5)"
proof -
  have p: "state_independent counting_reader"
    by (simp add: state_independent_def counting_reader_def)
  have r: "state_independent (constant_mapper bare_model)"
    by (simp add: state_independent_def constant_mapper_def)
  from parse_deterministic
      [where P = counting_reader and R = "constant_mapper bare_model"
         and b = "''<workbook/>''" and s = 0 and s' = 5] p r
  show ?thesis by simp
qed


end
